theory Spec2Isabelle
  imports Main
begin

section \<open>Data model of bookstore\_manger.py\<close>

text \<open>
  The three tables created by \<open>initialize_db\<close>. A table is the list of its rows.
  The columns \<open>mid\<close> and \<open>bid\<close> of table \<open>sale\<close> are named \<open>s_mid\<close> and \<open>s_bid\<close>,
  since record fields share one name space. Python strings are lists of characters
  (code points below 256); Python integers are unbounded, hence \<open>int\<close>.
\<close>

record member =
  mid :: string
  mname :: string
  mphone :: string
  memail :: "string option"

record book =
  bid :: string
  btitle :: string
  bprice :: int
  bstock :: int

record sale =
  sid :: int
  sdate :: string
  s_mid :: string
  s_bid :: string
  sqty :: int
  sdiscount :: int
  stotal :: int

text \<open>
  \<open>sale_seq\<close> is the row of \<open>sqlite_sequence\<close> that the AUTOINCREMENT key of \<open>sale\<close>
  maintains: the largest \<open>sid\<close> ever handed out.
\<close>

record db =
  members :: "member list"
  books :: "book list"
  sales :: "sale list"
  sale_seq :: int

text \<open>
  The connection \<open>conn\<close> shared by the operations: \<open>live\<close> is what its cursors see
  (uncommitted writes included), \<open>saved\<close> is the committed content of the file.
  \<open>conn.commit()\<close> copies \<open>live\<close> to \<open>saved\<close>, \<open>conn.rollback()\<close> copies it back.
\<close>

record conn =
  live :: db
  saved :: db

definition commit :: "conn \<Rightarrow> conn" where
  "commit c = c\<lparr>saved := live c\<rparr>"

definition rollback :: "conn \<Rightarrow> conn" where
  "rollback c = c\<lparr>live := saved c\<rparr>"

subsection \<open>Exceptions, injected persistence errors, printed lines\<close>

text \<open>
  \<open>sqlerr\<close>: the classes below \<open>sqlite3.Error\<close> that the handlers of the menu loop
  tell apart. \<open>DatabaseError\<close> stands for that class and its subclasses other than
  \<open>OperationalError\<close>; \<open>InterfaceError\<close> is a \<open>sqlite3.Error\<close> that is no
  \<open>DatabaseError\<close>.
\<close>

datatype sqlerr = OperationalError | DatabaseError | InterfaceError

datatype exn = ValueError | OverflowError | TypeError | EOFError | SqliteError sqlerr

text \<open>
  The statements sent to SQLite. Whether one of them fails is decided by the
  environment (locked or full file, I/O error), so every operation takes a
  function that says which statement raises which error.
\<close>

datatype stmt =
  SelMember | SelBook | InsSale | UpdBook | Commit
  | SelListing | SelSale | UpdSale | DelSale | SelReport

type_synonym faults = "stmt \<Rightarrow> sqlerr option"

definition no_fault :: faults where
  "no_fault = (\<lambda>_. None)"

text \<open>
  One constructor for each message the program prints or returns, carrying the values
  interpolated into it. Prompts and the menu banner are not modelled.
\<close>

datatype line =
  ErrDate \<comment> \<open>date format should be YYYY-MM-DD\<close>
  | ErrQtyNotPositive \<comment> \<open>quantity must be a positive integer\<close>
  | ErrQtyNotInt \<comment> \<open>quantity must be an integer\<close>
  | ErrDiscountNegative \<comment> \<open>discount must not be negative\<close>
  | ErrDiscountNotInt \<comment> \<open>discount must be an integer\<close>
  | ErrNoMember \<comment> \<open>member id does not exist\<close>
  | ErrNoBook \<comment> \<open>book id does not exist\<close>
  | ErrStock int \<comment> \<open>insufficient stock (current stock: ...)\<close>
  | SaleAdded int \<comment> \<open>sale record added (total: ...)\<close>
  | ErrRollback \<comment> \<open>adding the sale record failed, transaction rolled back\<close>
  | SystemError exn \<comment> \<open>system error: message of the exception\<close>
  | NoSalesToUpdate
  | NoSalesToDelete
  | ListHeader
  | ListRow nat int string string \<comment> \<open>position, sid, member name, date\<close>
  | ListFooter
  | ErrBadOption \<comment> \<open>please enter a valid option\<close>
  | ErrBadNumber \<comment> \<open>please enter a valid number\<close>
  | SaleUpdated int int \<comment> \<open>sid, new total\<close>
  | SaleDeleted int
  | ReportHeader
  | ReportBlock nat int string string string int int int int
  | InvalidMenuOption
  | ErrFormat \<comment> \<open>handler of ValueError in the menu loop\<close>
  | ErrOperational sqlerr \<comment> \<open>handler of sqlite3.OperationalError\<close>
  | ErrDatabase sqlerr \<comment> \<open>handler of sqlite3.DatabaseError\<close>
  | ProgramEnd

subsection \<open>Python's \<open>str.strip\<close> and \<open>int\<close> on strings\<close>

text \<open>
  \<open>str.strip()\<close> drops the characters for which \<open>str.isspace\<close> holds: below 256 these
  are 9 to 13, 28 to 31, 32, 133 and 160.
\<close>

definition is_space :: "char \<Rightarrow> bool" where
  "is_space ch = ((of_char ch :: nat) \<in> {9, 10, 11, 12, 13, 28, 29, 30, 31, 32, 133, 160})"

definition strip :: "string \<Rightarrow> string" where
  "strip s = rev (dropWhile is_space (rev (dropWhile is_space s)))"

text \<open>
  \<open>int\<close> skips less around the number: 9 to 13, 32, 133 and 160. The separators 28 to 31,
  which \<open>strip\<close> drops, make \<open>int\<close> raise \<open>ValueError\<close>.
\<close>

definition is_int_space :: "char \<Rightarrow> bool" where
  "is_int_space ch = ((of_char ch :: nat) \<in> {9, 10, 11, 12, 13, 32, 133, 160})"

definition int_strip :: "string \<Rightarrow> string" where
  "int_strip s = rev (dropWhile is_int_space (rev (dropWhile is_int_space s)))"

definition is_digit :: "char \<Rightarrow> bool" where
  "is_digit ch = (48 \<le> (of_char ch :: nat) \<and> (of_char ch :: nat) \<le> 57)"

definition digit_val :: "char \<Rightarrow> int" where
  "digit_val ch = int (of_char ch) - 48"

text \<open>
  The digits after the first one: a digit, or one underscore followed by a digit.
\<close>

fun py_digits :: "int \<Rightarrow> string \<Rightarrow> int option" where
  "py_digits acc [] = Some acc"
| "py_digits acc [ch] =
     (if is_digit ch then Some (acc * 10 + digit_val ch) else None)"
| "py_digits acc (ch # d # ds) =
     (if ch = CHR ''_''
      then (if is_digit d then py_digits (acc * 10 + digit_val d) ds else None)
      else if is_digit ch then py_digits (acc * 10 + digit_val ch) (d # ds)
      else None)"

text \<open>
  The interpreter refuses a decimal string of more than \<open>sys.get_int_max_str_digits()\<close>
  digits with \<open>ValueError\<close>; the program leaves that bound at its default of 4300.
  Leading zeros count, underscores and the sign do not.
\<close>

definition max_str_digits :: int where
  "max_str_digits = 4300"

definition py_nat :: "string \<Rightarrow> int option" where
  "py_nat s = (case s of [] \<Rightarrow> None
     | ch # cs \<Rightarrow>
         if \<not> is_digit ch then None
         else if max_str_digits < int (length (filter is_digit s)) then None
         else py_digits (digit_val ch) cs)"

text \<open>
  \<open>int(s)\<close> for a string \<open>s\<close>: \<open>None\<close> is \<open>ValueError\<close>. The white space of \<open>int\<close> around
  the number is dropped, one sign is allowed, the digits are decimal.
\<close>

definition py_int :: "string \<Rightarrow> int option" where
  "py_int s = (case int_strip s of [] \<Rightarrow> None
     | ch # cs \<Rightarrow>
         if ch = CHR ''-'' then map_option uminus (py_nat cs)
         else if ch = CHR ''+'' then py_nat cs
         else py_nat (ch # cs))"

text \<open>
  The \<open>sqlite3\<close> module binds a Python integer to a statement parameter only when it
  is a signed 64-bit value; otherwise \<open>execute\<close> raises \<open>OverflowError\<close> before the
  statement runs.
\<close>

definition fits_int64 :: "int \<Rightarrow> bool" where
  "fits_int64 n = (- (2 ^ 63) \<le> n \<and> n < 2 ^ 63)"

section \<open>The operations\<close>

subsection \<open>The SQL statements\<close>

text \<open>
  \<open>SELECT ... WHERE key = ?\<close> followed by \<open>fetchone()\<close> is \<open>find\<close>: the first
  matching row, or \<open>None\<close>.
\<close>

definition select_member :: "string \<Rightarrow> db \<Rightarrow> member option" where
  "select_member m s = find (\<lambda>r. mid r = m) (members s)"

definition select_book :: "string \<Rightarrow> db \<Rightarrow> book option" where
  "select_book b s = find (\<lambda>r. bid r = b) (books s)"

definition select_sale :: "int \<Rightarrow> db \<Rightarrow> sale option" where
  "select_sale k s = find (\<lambda>r. sid r = k) (sales s)"

text \<open>
  AUTOINCREMENT: the new key is one more than the largest key the table holds or
  has ever held.
\<close>

definition next_sid :: "db \<Rightarrow> int" where
  "next_sid s = fold max (map sid (sales s)) (sale_seq s) + 1"

text \<open>\<open>INSERT INTO sale (sdate, mid, bid, sqty, sdiscount, stotal) VALUES (?, ?, ?, ?, ?, ?)\<close>\<close>

definition insert_sale :: "string \<Rightarrow> string \<Rightarrow> string \<Rightarrow> int \<Rightarrow> int \<Rightarrow> int \<Rightarrow> db \<Rightarrow> db" where
  "insert_sale d m b q dc t s =
     s\<lparr>sales := sales s @
          [\<lparr>sid = next_sid s, sdate = d, s_mid = m, s_bid = b,
            sqty = q, sdiscount = dc, stotal = t\<rparr>],
       sale_seq := next_sid s\<rparr>"

text \<open>\<open>UPDATE book SET bstock = bstock - ? WHERE bid = ?\<close>\<close>

definition update_book_stock :: "int \<Rightarrow> string \<Rightarrow> db \<Rightarrow> db" where
  "update_book_stock q b s =
     s\<lparr>books := map (\<lambda>r. if bid r = b then r\<lparr>bstock := bstock r - q\<rparr> else r) (books s)\<rparr>"

text \<open>\<open>UPDATE sale SET sdiscount = ?, stotal = ? WHERE sid = ?\<close>\<close>

definition update_sale_row :: "int \<Rightarrow> int \<Rightarrow> int \<Rightarrow> db \<Rightarrow> db" where
  "update_sale_row dc t k s =
     s\<lparr>sales := map (\<lambda>r. if sid r = k then r\<lparr>sdiscount := dc, stotal := t\<rparr> else r) (sales s)\<rparr>"

text \<open>\<open>DELETE FROM sale WHERE sid = ?\<close>\<close>

definition delete_sale_row :: "int \<Rightarrow> db \<Rightarrow> db" where
  "delete_sale_row k s = s\<lparr>sales := filter (\<lambda>r. sid r \<noteq> k) (sales s)\<rparr>"

text \<open>
  \<open>SELECT s.sid, m.mname, s.sdate FROM sale s JOIN member m ON s.mid = m.mid ORDER BY s.sid\<close>:
  the sales by ascending \<open>sid\<close>, each joined with its member; \<open>mid\<close> is the primary key
  of \<open>member\<close>, so a sale joins with at most one member, and a sale whose member is
  missing yields no row.
\<close>

definition list_sales :: "db \<Rightarrow> (int \<times> string \<times> string) list" where
  "list_sales s =
     List.map_filter
       (\<lambda>r. map_option (\<lambda>m. (sid r, mname m, sdate r)) (select_member (s_mid r) s))
       (sort_key sid (sales s))"

definition list_rows :: "(int \<times> string \<times> string) list \<Rightarrow> line list" where
  "list_rows rows =
     map (\<lambda>(i, (k, n, d)). ListRow i k n d) (zip [1 ..< Suc (length rows)] rows)"

subsection \<open>\<open>add_sale\<close>\<close>

text \<open>
  The input is the list of lines still to be read from standard input; \<open>input()\<close> takes
  the first one and raises \<open>EOFError\<close> when there is none. The result is the returned
  pair, the lines left, and the connection. Every exception raised in the body ends
  in the handler \<open>except Exception\<close>, those of class \<open>sqlite3.Error\<close> raised by the
  insert, the stock update or the commit in the inner handler, which rolls back.
  \<open>conn.rollback()\<close> itself is taken to succeed.
\<close>

definition add_sale :: "faults \<Rightarrow> string list \<Rightarrow> conn \<Rightarrow> (bool \<times> line) \<times> string list \<times> conn" where
  "add_sale flt inp c =
    (case inp of [] \<Rightarrow> ((False, SystemError EOFError), [], c) | d # i1 \<Rightarrow>
     if length d \<noteq> 10 \<or> count_list d CHR ''-'' \<noteq> 2 then ((False, ErrDate), i1, c) else
     (case i1 of [] \<Rightarrow> ((False, SystemError EOFError), [], c) | m # i2 \<Rightarrow>
     (case i2 of [] \<Rightarrow> ((False, SystemError EOFError), [], c) | b # i3 \<Rightarrow>
     (case i3 of [] \<Rightarrow> ((False, SystemError EOFError), [], c) | qs # i4 \<Rightarrow>
     (case py_int qs of None \<Rightarrow> ((False, ErrQtyNotInt), i4, c) | Some q \<Rightarrow>
     if q \<le> 0 then ((False, ErrQtyNotPositive), i4, c) else
     (case i4 of [] \<Rightarrow> ((False, SystemError EOFError), [], c) | ds # i5 \<Rightarrow>
     (case py_int ds of None \<Rightarrow> ((False, ErrDiscountNotInt), i5, c) | Some dc \<Rightarrow>
     if dc < 0 then ((False, ErrDiscountNegative), i5, c) else
     (case flt SelMember of Some e \<Rightarrow> ((False, SystemError (SqliteError e)), i5, c) | None \<Rightarrow>
     if select_member m (live c) = None then ((False, ErrNoMember), i5, c) else
     (case flt SelBook of Some e \<Rightarrow> ((False, SystemError (SqliteError e)), i5, c) | None \<Rightarrow>
     (case select_book b (live c) of None \<Rightarrow> ((False, ErrNoBook), i5, c) | Some row \<Rightarrow>
     if bstock row < q then ((False, ErrStock (bstock row)), i5, c) else
     let t = bprice row * q - dc in
     if \<not> (fits_int64 q \<and> fits_int64 dc \<and> fits_int64 t)
     then ((False, SystemError OverflowError), i5, c) else
     (case flt InsSale of Some e \<Rightarrow> ((False, ErrRollback), i5, rollback c) | None \<Rightarrow>
     let c1 = c\<lparr>live := insert_sale d m b q dc t (live c)\<rparr> in
     (case flt UpdBook of Some e \<Rightarrow> ((False, ErrRollback), i5, rollback c1) | None \<Rightarrow>
     let c2 = c1\<lparr>live := update_book_stock q b (live c1)\<rparr> in
     (case flt Commit of Some e \<Rightarrow> ((False, ErrRollback), i5, rollback c2) | None \<Rightarrow>
     ((True, SaleAdded t), i5, commit c2))))))))))))))"

subsection \<open>\<open>update_sale\<close> and \<open>delete_sale\<close>\<close>

text \<open>
  Neither function has a handler of its own beyond \<open>except ValueError\<close> around the two
  calls of \<open>int\<close>: an exception is the result \<open>Inl\<close>, with the lines printed before it.
  \<open>fetchone()\<close> returning \<open>None\<close> makes the subscript that follows raise \<open>TypeError\<close>.
\<close>

definition update_sale :: "faults \<Rightarrow> string list \<Rightarrow> conn \<Rightarrow> (exn + unit) \<times> line list \<times> string list \<times> conn" where
  "update_sale flt inp c =
    (case flt SelListing of Some e \<Rightarrow> (Inl (SqliteError e), [], inp, c) | None \<Rightarrow>
     let rows = list_sales (live c) in
     if rows = [] then (Inr (), [NoSalesToUpdate], inp, c) else
     let out = ListHeader # list_rows rows @ [ListFooter] in
     (case inp of [] \<Rightarrow> (Inl EOFError, out, [], c) | choice # i1 \<Rightarrow>
     if strip choice = [] then (Inr (), out, i1, c) else
     (case py_int choice of None \<Rightarrow> (Inr (), out @ [ErrBadNumber], i1, c) | Some n \<Rightarrow>
     let index = n - 1 in
     if \<not> (0 \<le> index \<and> index < int (length rows))
     then (Inr (), out @ [ErrBadOption], i1, c) else
     let k = fst (rows ! nat index) in
     (case i1 of [] \<Rightarrow> (Inl EOFError, out, [], c) | ds # i2 \<Rightarrow>
     (case py_int ds of None \<Rightarrow> (Inr (), out @ [ErrDiscountNotInt], i2, c) | Some dc \<Rightarrow>
     if dc < 0 then (Inr (), out @ [ErrDiscountNegative], i2, c) else
     (case flt SelSale of Some e \<Rightarrow> (Inl (SqliteError e), out, i2, c) | None \<Rightarrow>
     (case select_sale k (live c) of None \<Rightarrow> (Inl TypeError, out, i2, c) | Some row \<Rightarrow>
     (case flt SelBook of Some e \<Rightarrow> (Inl (SqliteError e), out, i2, c) | None \<Rightarrow>
     (case select_book (s_bid row) (live c) of None \<Rightarrow> (Inl TypeError, out, i2, c) | Some brow \<Rightarrow>
     let t = bprice brow * sqty row - dc in
     if \<not> (fits_int64 dc \<and> fits_int64 t) then (Inl OverflowError, out, i2, c) else
     (case flt UpdSale of Some e \<Rightarrow> (Inl (SqliteError e), out, i2, c) | None \<Rightarrow>
     let c1 = c\<lparr>live := update_sale_row dc t k (live c)\<rparr> in
     (case flt Commit of Some e \<Rightarrow> (Inl (SqliteError e), out, i2, c1) | None \<Rightarrow>
     (Inr (), out @ [SaleUpdated k t], i2, commit c1))))))))))))"

text \<open>
  In \<open>delete_sale\<close> the line that prints the header of the listing stands after the
  \<open>return\<close> of the empty case and is never run; an index out of range prints the
  same message as a string that is no number.
\<close>

definition delete_sale :: "faults \<Rightarrow> string list \<Rightarrow> conn \<Rightarrow> (exn + unit) \<times> line list \<times> string list \<times> conn" where
  "delete_sale flt inp c =
    (case flt SelListing of Some e \<Rightarrow> (Inl (SqliteError e), [], inp, c) | None \<Rightarrow>
     let rows = list_sales (live c) in
     if rows = [] then (Inr (), [NoSalesToDelete], inp, c) else
     let out = list_rows rows @ [ListFooter] in
     (case inp of [] \<Rightarrow> (Inl EOFError, out, [], c) | choice # i1 \<Rightarrow>
     if strip choice = [] then (Inr (), out, i1, c) else
     (case py_int choice of None \<Rightarrow> (Inr (), out @ [ErrBadNumber], i1, c) | Some n \<Rightarrow>
     let index = n - 1 in
     if \<not> (0 \<le> index \<and> index < int (length rows))
     then (Inr (), out @ [ErrBadNumber], i1, c) else
     let k = fst (rows ! nat index) in
     (case flt DelSale of Some e \<Rightarrow> (Inl (SqliteError e), out, i1, c) | None \<Rightarrow>
     let c1 = c\<lparr>live := delete_sale_row k (live c)\<rparr> in
     (case flt Commit of Some e \<Rightarrow> (Inl (SqliteError e), out, i1, c1) | None \<Rightarrow>
     (Inr (), out @ [SaleDeleted k], i1, commit c1))))))"

subsection \<open>\<open>show_sales\<close>\<close>

text \<open>
  The report opens a connection of its own, so it reads the committed content. Its
  query joins each sale with its member and its book, by ascending \<open>sid\<close>.
\<close>

definition report_rows :: "db \<Rightarrow> (sale \<times> member \<times> book) list" where
  "report_rows s =
     List.map_filter
       (\<lambda>r. case select_member (s_mid r) s of None \<Rightarrow> None
          | Some m \<Rightarrow> map_option (\<lambda>b. (r, m, b)) (select_book (s_bid r) s))
       (sort_key sid (sales s))"

definition show_sales :: "faults \<Rightarrow> conn \<Rightarrow> (exn + unit) \<times> line list" where
  "show_sales flt c =
    (case flt SelReport of Some e \<Rightarrow> (Inl (SqliteError e), []) | None \<Rightarrow>
     let rows = report_rows (saved c) in
     (Inr (),
      ReportHeader #
      map (\<lambda>(i, (r, m, b)).
             ReportBlock i (sid r) (sdate r) (mname m) (btitle b)
               (bprice b) (sqty r) (sdiscount r) (stotal r))
          (zip [1 ..< Suc (length rows)] rows)))"

subsection \<open>The menu loop\<close>

text \<open>
  The handlers of the loop, in their order: \<open>ValueError\<close>, \<open>sqlite3.OperationalError\<close>,
  \<open>sqlite3.DatabaseError\<close>. An exception of another class is not caught: the process
  ends with a traceback.
\<close>

definition handler :: "exn \<Rightarrow> line option" where
  "handler e =
     (case e of
        ValueError \<Rightarrow> Some ErrFormat
      | SqliteError OperationalError \<Rightarrow> Some (ErrOperational OperationalError)
      | SqliteError DatabaseError \<Rightarrow> Some (ErrDatabase DatabaseError)
      | _ \<Rightarrow> None)"

datatype exit = Exited | Crashed exn

definition finish :: "exn + unit \<Rightarrow> line list \<Rightarrow> string list \<Rightarrow> conn
    \<Rightarrow> exit option \<times> line list \<times> string list \<times> conn" where
  "finish r out rest c =
    (case r of Inr _ \<Rightarrow> (None, out, rest, c)
     | Inl e \<Rightarrow>
        (case handler e of Some m \<Rightarrow> (None, out @ [m], rest, c)
         | None \<Rightarrow> (Some (Crashed e), out, rest, c)))"

text \<open>
  One round of \<open>while True\<close>: \<open>Some\<close> exit when the loop is left, by \<open>break\<close> or by an
  exception no handler catches.
\<close>

definition menu_step :: "faults \<Rightarrow> string list \<Rightarrow> conn
    \<Rightarrow> exit option \<times> line list \<times> string list \<times> conn" where
  "menu_step flt inp c =
    (case inp of [] \<Rightarrow> (Some (Crashed EOFError), [], [], c) | choice # rest \<Rightarrow>
     if choice = ''1'' then
       (case add_sale flt rest c of ((success, message), rest', c') \<Rightarrow>
          (None, [message], rest', c'))
     else if choice = ''2'' then
       (case show_sales flt c of (r, out) \<Rightarrow> finish r out rest c)
     else if choice = ''3'' then
       (case update_sale flt rest c of (r, out, rest', c') \<Rightarrow> finish r out rest' c')
     else if choice = ''4'' then
       (case delete_sale flt rest c of (r, out, rest', c') \<Rightarrow> finish r out rest' c')
     else if choice = ''5'' \<or> choice = [] then (Some Exited, [ProgramEnd], rest, c)
     else (None, [InvalidMenuOption], rest, c))"

subsection \<open>The database after \<open>initialize_db\<close> on a new file\<close>

definition seed_db :: db where
  "seed_db =
    \<lparr>members =
       [\<lparr>mid = ''M001'', mname = ''Alice'', mphone = ''0912-345678'', memail = Some ''alice@example.com''\<rparr>,
        \<lparr>mid = ''M002'', mname = ''Bob'', mphone = ''0923-456789'', memail = Some ''bob@example.com''\<rparr>,
        \<lparr>mid = ''M003'', mname = ''Cathy'', mphone = ''0934-567890'', memail = Some ''cathy@example.com''\<rparr>],
     books =
       [\<lparr>bid = ''B001'', btitle = ''Python Programming'', bprice = 600, bstock = 50\<rparr>,
        \<lparr>bid = ''B002'', btitle = ''Data Science Basics'', bprice = 800, bstock = 30\<rparr>,
        \<lparr>bid = ''B003'', btitle = ''Machine Learning Guide'', bprice = 1200, bstock = 20\<rparr>],
     sales =
       [\<lparr>sid = 1, sdate = ''2024-01-15'', s_mid = ''M001'', s_bid = ''B001'', sqty = 2, sdiscount = 100, stotal = 1100\<rparr>,
        \<lparr>sid = 2, sdate = ''2024-01-16'', s_mid = ''M002'', s_bid = ''B002'', sqty = 1, sdiscount = 50, stotal = 750\<rparr>,
        \<lparr>sid = 3, sdate = ''2024-01-17'', s_mid = ''M001'', s_bid = ''B003'', sqty = 3, sdiscount = 200, stotal = 3400\<rparr>,
        \<lparr>sid = 4, sdate = ''2024-01-18'', s_mid = ''M003'', s_bid = ''B001'', sqty = 1, sdiscount = 0, stotal = 600\<rparr>],
     sale_seq = 4\<rparr>"

definition seed_conn :: conn where
  "seed_conn = \<lparr>live = seed_db, saved = seed_db\<rparr>"

text \<open>The seeded database after the price of B001 went from 600 to 700.\<close>

definition repriced_conn :: conn where
  "repriced_conn =
     \<lparr>live = seed_db\<lparr>books :=
         map (\<lambda>r. if bid r = ''B001'' then r\<lparr>bprice := 700\<rparr> else r) (books seed_db)\<rparr>,
      saved = seed_db\<lparr>books :=
         map (\<lambda>r. if bid r = ''B001'' then r\<lparr>bprice := 700\<rparr> else r) (books seed_db)\<rparr>\<rparr>"

text \<open>The seeded database with an empty ledger.\<close>

definition no_sales_conn :: conn where
  "no_sales_conn = \<lparr>live = seed_db\<lparr>sales := []\<rparr>, saved = seed_db\<lparr>sales := []\<rparr>\<rparr>"

section \<open>Invariants of the schema\<close>

text \<open>
  \<open>mid\<close>, \<open>bid\<close> and \<open>sid\<close> are declared PRIMARY KEY: no two rows of a table share
  their key. The stock of every book is not negative.
\<close>

definition primary_keys :: "db \<Rightarrow> bool" where
  "primary_keys s =
     (distinct (map mid (members s)) \<and> distinct (map bid (books s)) \<and> distinct (map sid (sales s)))"

definition stock_nonneg :: "db \<Rightarrow> bool" where
  "stock_nonneg s = list_all (\<lambda>r. 0 \<le> bstock r) (books s)"

text \<open>The shape that \<open>add_sale\<close> asks of a date: ten characters, two of them hyphens.\<close>

abbreviation date_shape :: "string \<Rightarrow> bool" where
  "date_shape d \<equiv> length d = 10 \<and> count_list d CHR ''-'' = 2"

text \<open>
  The connections that the three writing operations can produce from \<open>c0\<close>, whatever
  is typed and whichever statements fail.
\<close>

inductive reachable :: "conn \<Rightarrow> conn \<Rightarrow> bool" for c0 :: conn where
  start: "reachable c0 c0"
| create: "reachable c0 c \<Longrightarrow> reachable c0 (snd (snd (add_sale flt inp c)))"
| update: "reachable c0 c \<Longrightarrow> reachable c0 (snd (snd (snd (update_sale flt inp c))))"
| delete: "reachable c0 c \<Longrightarrow> reachable c0 (snd (snd (snd (delete_sale flt inp c))))"

section \<open>The menu loop ends on every finite input\<close>

lemma add_sale_input: "length (fst (snd (add_sale flt inp c))) \<le> length inp"
  by (simp add: add_sale_def Let_def split: list.split option.split)

lemma update_sale_input: "length (fst (snd (snd (update_sale flt inp c)))) \<le> length inp"
  by (simp add: update_sale_def Let_def split: list.split option.split)

lemma delete_sale_input: "length (fst (snd (snd (delete_sale flt inp c)))) \<le> length inp"
  by (simp add: delete_sale_def Let_def split: list.split option.split)

lemma finish_input: "fst (snd (snd (finish r out rest c))) = rest"
  by (simp add: finish_def split: sum.split option.split)

lemma menu_step_input:
  assumes "menu_step flt inp c = (None, out, inp', c')"
  shows "length inp' < length inp"
proof (cases inp)
  case Nil
  with assms show ?thesis by (simp add: menu_step_def)
next
  case (Cons choice rest)
  have a: "length (fst (snd (add_sale flt rest c))) \<le> length rest"
    by (rule add_sale_input)
  have u: "length (fst (snd (snd (update_sale flt rest c)))) \<le> length rest"
    by (rule update_sale_input)
  have d: "length (fst (snd (snd (delete_sale flt rest c)))) \<le> length rest"
    by (rule delete_sale_input)
  have "fst (snd (snd (menu_step flt inp c))) = inp'"
    using assms by simp
  moreover have "length (fst (snd (snd (menu_step flt inp c)))) \<le> length rest"
    using a u d
    by (auto simp add: menu_step_def Cons finish_input split: prod.split)
  ultimately show ?thesis using Cons by simp
qed

text \<open>
  The loop. Each round reads at least one line, so on a finite input it ends: with the
  exit choice, or with the exception that leaves it (at the latest \<open>EOFError\<close>). The
  first argument gives the persistence errors of each round, none once it is used up.
\<close>

function main_loop :: "faults list \<Rightarrow> string list \<Rightarrow> conn \<Rightarrow> exit \<times> line list \<times> conn" where
  "main_loop fs inp c =
    (case menu_step (case fs of [] \<Rightarrow> no_fault | f # _ \<Rightarrow> f) inp c of
       (Some e, out, inp', c') \<Rightarrow> (e, out, c')
     | (None, out, inp', c') \<Rightarrow>
         (case main_loop (tl fs) inp' c' of (e, out', c'') \<Rightarrow> (e, out @ out', c'')))"
  by pat_completeness auto
termination
proof (relation "measure (\<lambda>(fs, inp, c). length inp)")
  show "wf (measure (\<lambda>(fs, inp, c). length inp))" by simp
next
  fix fs :: "faults list" and inp :: "string list" and c :: conn
    and x :: "exit option" and y :: "line list \<times> string list \<times> conn"
    and xa :: "line list" and ya :: "string list \<times> conn"
    and xb :: "string list" and yb :: conn
  assume "(x, y) = menu_step (case fs of [] \<Rightarrow> no_fault | f # x \<Rightarrow> f) inp c"
    and "x = None" and "(xa, ya) = y" and "(xb, yb) = ya"
  then have "menu_step (case fs of [] \<Rightarrow> no_fault | f # x \<Rightarrow> f) inp c = (None, xa, xb, yb)"
    by simp
  then have "length xb < length inp" by (rule menu_step_input)
  then show "((tl fs, xb, yb), fs, inp, c) \<in> measure (\<lambda>(fs, inp, c). length inp)"
    by simp
qed

section \<open>Facts about the tables\<close>

lemma find_mem: "find P xs = Some x \<Longrightarrow> x \<in> set xs \<and> P x"
  by (induction xs) (auto split: if_splits)

lemma find_some: "x \<in> set xs \<Longrightarrow> P x \<Longrightarrow> \<exists>y. find P xs = Some y"
  by (induction xs) auto

lemma distinct_key_eq:
  "distinct (map f xs) \<Longrightarrow> x \<in> set xs \<Longrightarrow> y \<in> set xs \<Longrightarrow> f x = f y \<Longrightarrow> x = y"
  by (auto simp add: distinct_map dest: inj_onD)

lemma fold_max_ge: "(a::int) \<le> fold max xs a"
  by (induction xs arbitrary: a) (auto intro: order_trans [OF max.cobounded2])

lemma fold_max_mem: "(x::int) \<in> set xs \<Longrightarrow> x \<le> fold max xs a"
proof (induction xs arbitrary: a)
  case Nil
  then show ?case by simp
next
  case (Cons y ys)
  show ?case
  proof (cases "x = y")
    case True
    have "y \<le> max y a" by simp
    also have "\<dots> \<le> fold max ys (max y a)" by (rule fold_max_ge)
    finally show ?thesis using True by simp
  next
    case False
    with Cons show ?thesis by simp
  qed
qed

text \<open>The key of a new sale is not in the table.\<close>

lemma next_sid_fresh: "next_sid s \<notin> sid ` set (sales s)"
proof
  assume "next_sid s \<in> sid ` set (sales s)"
  then have "next_sid s \<in> set (map sid (sales s))" by simp
  then have "next_sid s \<le> fold max (map sid (sales s)) (sale_seq s)" by (rule fold_max_mem)
  then show False by (simp add: next_sid_def)
qed

lemma bid_update:
  "bid \<circ> (\<lambda>r. if bid r = b then r\<lparr>bstock := bstock r - q\<rparr> else r) = bid"
  by (auto simp add: fun_eq_iff)

lemma sid_update:
  "sid \<circ> (\<lambda>r. if sid r = k then r\<lparr>sdiscount := dc, stotal := t\<rparr> else r) = sid"
  by (auto simp add: fun_eq_iff)

lemma primary_keys_insert_sale:
  "primary_keys s \<Longrightarrow> primary_keys (insert_sale d m b q dc t s)"
  using next_sid_fresh [of s] by (simp add: primary_keys_def insert_sale_def)

lemma primary_keys_update_book_stock:
  "primary_keys s \<Longrightarrow> primary_keys (update_book_stock q b s)"
  by (simp add: primary_keys_def update_book_stock_def bid_update)

lemma primary_keys_update_sale_row:
  "primary_keys s \<Longrightarrow> primary_keys (update_sale_row dc t k s)"
  by (simp add: primary_keys_def update_sale_row_def sid_update)

lemma primary_keys_delete_sale_row:
  "primary_keys s \<Longrightarrow> primary_keys (delete_sale_row k s)"
  by (simp add: primary_keys_def delete_sale_row_def distinct_map_filter)

lemma add_sale_primary_keys:
  assumes "primary_keys (live c)" and "primary_keys (saved c)"
  shows "primary_keys (live (snd (snd (add_sale flt inp c))))
       \<and> primary_keys (saved (snd (snd (add_sale flt inp c))))"
  using assms
  by (simp add: add_sale_def Let_def commit_def rollback_def
      primary_keys_insert_sale primary_keys_update_book_stock
      split: list.split option.split)

lemma update_sale_primary_keys:
  assumes "primary_keys (live c)" and "primary_keys (saved c)"
  shows "primary_keys (live (snd (snd (snd (update_sale flt inp c)))))
       \<and> primary_keys (saved (snd (snd (snd (update_sale flt inp c)))))"
  using assms
  by (simp add: update_sale_def Let_def commit_def primary_keys_update_sale_row
      split: list.split option.split)

lemma delete_sale_primary_keys:
  assumes "primary_keys (live c)" and "primary_keys (saved c)"
  shows "primary_keys (live (snd (snd (snd (delete_sale flt inp c)))))
       \<and> primary_keys (saved (snd (snd (snd (delete_sale flt inp c)))))"
  using assms
  by (simp add: delete_sale_def Let_def commit_def primary_keys_delete_sale_row
      split: list.split option.split)

lemma sales_update_book_stock: "sales (update_book_stock q b s) = sales s"
  by (simp add: update_book_stock_def)

lemma books_insert_sale: "books (insert_sale d m b q dc t s) = books s"
  by (simp add: insert_sale_def)

lemma stock_nonneg_insert_sale: "stock_nonneg (insert_sale d m b q dc t s) = stock_nonneg s"
  by (simp add: stock_nonneg_def books_insert_sale)

lemma select_book_insert_sale: "select_book b (insert_sale d m x q dc t s) = select_book b s"
  by (simp add: select_book_def books_insert_sale)

text \<open>
  The stock update keeps every stock non-negative when the quantity is at most the
  stock of the book that the key selects: the key selects one row only.
\<close>

lemma stock_nonneg_update_book_stock:
  assumes "stock_nonneg s" and "distinct (map bid (books s))"
    and "select_book b s = Some row" and "q \<le> bstock row"
  shows "stock_nonneg (update_book_stock q b s)"
proof -
  have row: "row \<in> set (books s)" "bid row = b"
    using find_mem [OF assms(3) [unfolded select_book_def]] by simp_all
  have "0 \<le> bstock r - q" if "r \<in> set (books s)" and "bid r = b" for r
  proof -
    have "r = row" using distinct_key_eq [OF assms(2) that(1) row(1)] that(2) row(2) by simp
    then show ?thesis using assms(4) by simp
  qed
  then show ?thesis
    using assms(1) by (auto simp add: stock_nonneg_def update_book_stock_def list_all_iff)
qed

lemma add_sale_stock_nonneg:
  assumes "stock_nonneg (live c)" and "stock_nonneg (saved c)"
    and "distinct (map bid (books (live c)))"
  shows "stock_nonneg (live (snd (snd (add_sale flt inp c))))
       \<and> stock_nonneg (saved (snd (snd (add_sale flt inp c))))"
proof -
  have upd: "stock_nonneg (update_book_stock q b (insert_sale d m b q dc t (live c)))"
    if "select_book b (live c) = Some row" and "\<not> bstock row < q" for b row q d m dc t
    using that assms
    by (intro stock_nonneg_update_book_stock [where row = row])
       (simp_all add: stock_nonneg_insert_sale books_insert_sale select_book_insert_sale)
  show ?thesis
    using assms(1,2) upd
    by (simp add: add_sale_def Let_def commit_def rollback_def
        split: list.split option.split)
qed

lemma update_sale_books:
  "books (live (snd (snd (snd (update_sale flt inp c))))) = books (live c)
   \<and> (books (saved (snd (snd (snd (update_sale flt inp c))))) = books (saved c)
      \<or> books (saved (snd (snd (snd (update_sale flt inp c))))) = books (live c))"
  by (simp add: update_sale_def Let_def commit_def update_sale_row_def
      split: list.split option.split)

lemma delete_sale_books:
  "books (live (snd (snd (snd (delete_sale flt inp c))))) = books (live c)
   \<and> (books (saved (snd (snd (snd (delete_sale flt inp c))))) = books (saved c)
      \<or> books (saved (snd (snd (snd (delete_sale flt inp c))))) = books (live c))"
  by (simp add: delete_sale_def Let_def commit_def delete_sale_row_def
      split: list.split option.split)

text \<open>Unique keys and non-negative stocks hold together along every run.\<close>

lemma reachable_invariant:
  assumes "reachable c0 c"
    and "stock_nonneg (live c0)" and "stock_nonneg (saved c0)"
    and "primary_keys (live c0)" and "primary_keys (saved c0)"
  shows "stock_nonneg (live c) \<and> stock_nonneg (saved c)
       \<and> primary_keys (live c) \<and> primary_keys (saved c)"
  using assms
proof (induction rule: reachable.induct)
  case start
  then show ?case by simp
next
  case (create c flt inp)
  then have i: "stock_nonneg (live c)" "stock_nonneg (saved c)"
    "primary_keys (live c)" "primary_keys (saved c)" by simp_all
  have d: "distinct (map bid (books (live c)))"
    using i(3) by (simp add: primary_keys_def)
  show ?case
    using add_sale_stock_nonneg [OF i(1,2) d] add_sale_primary_keys [OF i(3,4)] by simp
next
  case (update c flt inp)
  then have i: "stock_nonneg (live c)" "stock_nonneg (saved c)"
    "primary_keys (live c)" "primary_keys (saved c)" by simp_all
  show ?case
    using update_sale_books [of flt inp c] update_sale_primary_keys [OF i(3,4)] i(1,2)
    by (auto simp add: stock_nonneg_def)
next
  case (delete c flt inp)
  then have i: "stock_nonneg (live c)" "stock_nonneg (saved c)"
    "primary_keys (live c)" "primary_keys (saved c)" by simp_all
  show ?case
    using delete_sale_books [of flt inp c] delete_sale_primary_keys [OF i(3,4)] i(1,2)
    by (auto simp add: stock_nonneg_def)
qed

section \<open>Creating a sale\<close>

text \<open>
  C1 as stated, for every create that passes all validation: one copy of B001 with the
  discount 2 to the power 63 passes the six checks, yet no sale is stored. The discount
  cannot be bound to the insert, and \<open>add_sale\<close> answers with the system error.
\<close>

theorem add_sale_overflow_counterexample:
  "date_shape ''2024-03-01''
   \<and> py_int ''1'' = Some 1 \<and> (0::int) < 1
   \<and> py_int ''9223372036854775808'' = Some (2 ^ 63) \<and> (0::int) \<le> 2 ^ 63
   \<and> select_member ''M002'' (live seed_conn) \<noteq> None
   \<and> select_book ''B001'' (live seed_conn) =
       Some \<lparr>bid = ''B001'', btitle = ''Python Programming'', bprice = 600, bstock = 50\<rparr>
   \<and> (1::int) \<le> 50 \<and> (600::int) * 1 < 2 ^ 63
   \<and> add_sale no_fault [''2024-03-01'', ''M002'', ''B001'', ''1'', ''9223372036854775808'']
        seed_conn = ((False, SystemError OverflowError), [], seed_conn)
   \<and> map stotal (sales (saved seed_conn)) = [1100, 750, 3400, 600]"
  by code_simp

text \<open>
  C1, amended. A create that passes all validation, whose quantity, discount and total
  are signed 64-bit values and whose statements do not fail, succeeds: the total it
  returns is the price of the book times the quantity minus the discount, and the row
  appended to the committed ledger carries exactly that total. Nothing is asked of the
  sign of the total: a discount above price times quantity is accepted and stored as a
  negative total.
\<close>

theorem add_sale_total:
  assumes "date_shape d"
    and "py_int qs = Some q" and "0 < q" and "py_int ds = Some dc" and "0 \<le> dc"
    and "flt SelMember = None" and "select_member m (live c) = Some mrow"
    and "flt SelBook = None" and "select_book b (live c) = Some row" and "q \<le> bstock row"
    and "fits_int64 q" and "fits_int64 dc" and "fits_int64 (bprice row * q - dc)"
    and "flt InsSale = None" and "flt UpdBook = None" and "flt Commit = None"
  shows "fst (add_sale flt (d # m # b # qs # ds # rest) c) =
           (True, SaleAdded (bprice row * q - dc))
       \<and> sales (saved (snd (snd (add_sale flt (d # m # b # qs # ds # rest) c)))) =
           sales (live c) @
             [\<lparr>sid = next_sid (live c), sdate = d, s_mid = m, s_bid = b,
               sqty = q, sdiscount = dc, stotal = bprice row * q - dc\<rparr>]
       \<and> live (snd (snd (add_sale flt (d # m # b # qs # ds # rest) c))) =
           saved (snd (snd (add_sale flt (d # m # b # qs # ds # rest) c)))
       \<and> (bprice row * q < dc \<longrightarrow>
            stotal (last (sales (saved (snd (snd
              (add_sale flt (d # m # b # qs # ds # rest) c)))))) < 0)"
  using assms
  by (simp add: add_sale_def Let_def commit_def insert_sale_def update_book_stock_def)

text \<open>
  A discount of 1000 on one copy of a book at 600: the sale is stored with total -400.
\<close>

theorem add_sale_total_witness:
  "date_shape ''2024-01-01''
   \<and> py_int ''1'' = Some 1 \<and> (0::int) < 1 \<and> py_int ''1000'' = Some 1000 \<and> (0::int) \<le> 1000
   \<and> select_member ''M001'' (live seed_conn) =
       Some \<lparr>mid = ''M001'', mname = ''Alice'', mphone = ''0912-345678'',
             memail = Some ''alice@example.com''\<rparr>
   \<and> select_book ''B001'' (live seed_conn) =
       Some \<lparr>bid = ''B001'', btitle = ''Python Programming'', bprice = 600, bstock = 50\<rparr>
   \<and> (1::int) \<le> 50 \<and> fits_int64 1 \<and> fits_int64 1000 \<and> fits_int64 (600 * 1 - 1000)
   \<and> (600::int) * 1 < 1000
   \<and> fst (add_sale no_fault [''2024-01-01'', ''M001'', ''B001'', ''1'', ''1000''] seed_conn)
       = (True, SaleAdded (- 400))
   \<and> stotal (last (sales (saved (snd (snd
        (add_sale no_fault [''2024-01-01'', ''M001'', ''B001'', ''1'', ''1000''] seed_conn))))))
       < 0
   \<and> map stotal (sales (saved (snd (snd
        (add_sale no_fault [''2024-01-01'', ''M001'', ''B001'', ''1'', ''1000''] seed_conn)))))
       = [1100, 750, 3400, 600, - 400]"
proof -
  have h1: "date_shape ''2024-01-01''" by simp
  have h2: "py_int ''1'' = Some 1" by code_simp
  have h3: "(0::int) < 1" by simp
  have h4: "py_int ''1000'' = Some 1000" by code_simp
  have h5: "(0::int) \<le> 1000" by simp
  have f: "no_fault SelMember = None" "no_fault SelBook = None" "no_fault InsSale = None"
    "no_fault UpdBook = None" "no_fault Commit = None"
    by (simp_all add: no_fault_def)
  have h7: "select_member ''M001'' (live seed_conn) =
      Some \<lparr>mid = ''M001'', mname = ''Alice'', mphone = ''0912-345678'',
            memail = Some ''alice@example.com''\<rparr>"
    by code_simp
  have h9: "select_book ''B001'' (live seed_conn) =
      Some \<lparr>bid = ''B001'', btitle = ''Python Programming'', bprice = 600, bstock = 50\<rparr>"
    by code_simp
  have h10: "(1::int) \<le> bstock \<lparr>bid = ''B001'', btitle = ''Python Programming'',
      bprice = 600, bstock = 50\<rparr>"
    by simp
  have h11: "fits_int64 1" by (simp add: fits_int64_def)
  have h12: "fits_int64 1000" by (simp add: fits_int64_def)
  have h13: "fits_int64 (bprice \<lparr>bid = ''B001'', btitle = ''Python Programming'',
      bprice = 600, bstock = 50\<rparr> * 1 - 1000)"
    by (simp add: fits_int64_def)
  have s: "map stotal (sales (live seed_conn)) = [1100, 750, 3400, 600]"
    by code_simp
  show ?thesis
    using add_sale_total [where flt = no_fault and rest = "[]",
        OF h1 h2 h3 h4 h5 f(1) h7 f(2) h9 h10 h11 h12 h13 f(3) f(4) f(5)]
      h2 h4 h7 h9 h11 h12 s
    by (simp add: fits_int64_def)
qed

text \<open>
  C2. Once the checks of \<open>add_sale\<close> have passed, the insert, the stock update and the
  commit form one unit. When none of the three fails, the committed database has the
  new row at the end of the ledger and the stock of the book lowered by the quantity.
  When one of them fails, the result is the roll-back message, which is none of the
  validation messages, the committed database is the one before the call and the
  connection shows it again; a connection with nothing pending is left as it was.
\<close>

theorem add_sale_atomic:
  assumes "date_shape d"
    and "py_int qs = Some q" and "0 < q" and "py_int ds = Some dc" and "0 \<le> dc"
    and "flt SelMember = None" and "select_member m (live c) = Some mrow"
    and "flt SelBook = None" and "select_book b (live c) = Some row" and "q \<le> bstock row"
    and "fits_int64 q" and "fits_int64 dc" and "fits_int64 (bprice row * q - dc)"
  shows "(if flt InsSale = None \<and> flt UpdBook = None \<and> flt Commit = None
          then add_sale flt (d # m # b # qs # ds # rest) c =
            ((True, SaleAdded (bprice row * q - dc)), rest,
             \<lparr>live = (live c)
                 \<lparr>books := map (\<lambda>r. if bid r = b then r\<lparr>bstock := bstock r - q\<rparr> else r)
                    (books (live c)),
                  sales := sales (live c) @
                    [\<lparr>sid = next_sid (live c), sdate = d, s_mid = m, s_bid = b,
                      sqty = q, sdiscount = dc, stotal = bprice row * q - dc\<rparr>],
                  sale_seq := next_sid (live c)\<rparr>,
              saved = (live c)
                 \<lparr>books := map (\<lambda>r. if bid r = b then r\<lparr>bstock := bstock r - q\<rparr> else r)
                    (books (live c)),
                  sales := sales (live c) @
                    [\<lparr>sid = next_sid (live c), sdate = d, s_mid = m, s_bid = b,
                      sqty = q, sdiscount = dc, stotal = bprice row * q - dc\<rparr>],
                  sale_seq := next_sid (live c)\<rparr>\<rparr>)
          else add_sale flt (d # m # b # qs # ds # rest) c =
            ((False, ErrRollback), rest, \<lparr>live = saved c, saved = saved c\<rparr>)
            \<and> (live c = saved c \<longrightarrow> snd (snd (add_sale flt (d # m # b # qs # ds # rest) c)) = c))
       \<and> ErrRollback \<notin> {ErrDate, ErrQtyNotInt, ErrQtyNotPositive, ErrDiscountNotInt,
            ErrDiscountNegative, ErrNoMember, ErrNoBook, ErrStock (bstock row)}"
  using assms
  by (auto simp add: add_sale_def Let_def commit_def rollback_def insert_sale_def
      update_book_stock_def split: option.splits)

text \<open>
  Two copies of B001 with discount 100: with a failing stock update nothing changes,
  without a failure the sale is added with total 1100.
\<close>

theorem add_sale_atomic_witness:
  "date_shape ''2024-01-01''
   \<and> py_int ''2'' = Some 2 \<and> py_int ''100'' = Some 100
   \<and> select_member ''M001'' (live seed_conn) =
       Some \<lparr>mid = ''M001'', mname = ''Alice'', mphone = ''0912-345678'',
             memail = Some ''alice@example.com''\<rparr>
   \<and> select_book ''B001'' (live seed_conn) =
       Some \<lparr>bid = ''B001'', btitle = ''Python Programming'', bprice = 600, bstock = 50\<rparr>
   \<and> fits_int64 2 \<and> fits_int64 100 \<and> fits_int64 (600 * 2 - 100)
   \<and> add_sale (no_fault(UpdBook := Some OperationalError))
        [''2024-01-01'', ''M001'', ''B001'', ''2'', ''100''] seed_conn =
       ((False, ErrRollback), [], seed_conn)
   \<and> fst (add_sale no_fault [''2024-01-01'', ''M001'', ''B001'', ''2'', ''100''] seed_conn) =
       (True, SaleAdded 1100)"
proof -
  have h1: "date_shape ''2024-01-01''" by simp
  have h3: "py_int ''2'' = Some 2" by code_simp
  have h4: "(0::int) < 2" by simp
  have h5: "py_int ''100'' = Some 100" by code_simp
  have h6: "(0::int) \<le> 100" by simp
  have h7: "(no_fault(UpdBook := Some OperationalError)) SelMember = None"
    by (simp add: no_fault_def)
  have h8: "select_member ''M001'' (live seed_conn) =
      Some \<lparr>mid = ''M001'', mname = ''Alice'', mphone = ''0912-345678'',
            memail = Some ''alice@example.com''\<rparr>"
    by code_simp
  have h9: "(no_fault(UpdBook := Some OperationalError)) SelBook = None"
    by (simp add: no_fault_def)
  have h10: "select_book ''B001'' (live seed_conn) =
      Some \<lparr>bid = ''B001'', btitle = ''Python Programming'', bprice = 600, bstock = 50\<rparr>"
    by code_simp
  have h11: "(2::int) \<le> bstock \<lparr>bid = ''B001'', btitle = ''Python Programming'',
      bprice = 600, bstock = 50\<rparr>"
    by simp
  have h12: "fits_int64 2" by (simp add: fits_int64_def)
  have h13: "fits_int64 100" by (simp add: fits_int64_def)
  have h14: "fits_int64 (bprice \<lparr>bid = ''B001'', btitle = ''Python Programming'',
      bprice = 600, bstock = 50\<rparr> * 2 - 100)"
    by (simp add: fits_int64_def)
  have n7: "no_fault SelMember = None" and n9: "no_fault SelBook = None"
    by (simp_all add: no_fault_def)
  have live: "live seed_conn = saved seed_conn" by (simp add: seed_conn_def)
  show ?thesis
    using add_sale_atomic [OF h1 h3 h4 h5 h6 h7 h8 h9 h10 h11 h12 h13 h14, of "[]"]
      add_sale_atomic [OF h1 h3 h4 h5 h6 n7 h8 n9 h10 h11 h12 h13 h14, of "[]"]
      h3 h5 h8 h10 h12 h13 live
    by (simp add: no_fault_def fits_int64_def seed_conn_def)
qed

text \<open>
  C3. In every state that create, update and delete can reach from a state with unique
  keys and non-negative stocks, the stock of every book is non-negative, in the
  connection and in the committed database; update and delete leave the table of
  books as it is.
\<close>

theorem stock_never_negative:
  assumes "reachable c0 c"
    and "stock_nonneg (live c0)" and "stock_nonneg (saved c0)"
    and "primary_keys (live c0)" and "primary_keys (saved c0)"
  shows "stock_nonneg (live c) \<and> stock_nonneg (saved c)
       \<and> books (live (snd (snd (snd (update_sale flt inp c))))) = books (live c)
       \<and> books (live (snd (snd (snd (delete_sale flt inp c))))) = books (live c)"
  using reachable_invariant [OF assms] update_sale_books [of flt inp c]
    delete_sale_books [of flt inp c]
  by simp

text \<open>Selling all twenty copies of B003 leaves its stock at zero.\<close>

theorem stock_never_negative_witness:
  "reachable seed_conn
     (snd (snd (add_sale no_fault [''2024-02-01'', ''M002'', ''B003'', ''20'', ''0''] seed_conn)))
   \<and> stock_nonneg (live seed_conn) \<and> stock_nonneg (saved seed_conn)
   \<and> primary_keys (live seed_conn) \<and> primary_keys (saved seed_conn)
   \<and> stock_nonneg (live (snd (snd
        (add_sale no_fault [''2024-02-01'', ''M002'', ''B003'', ''20'', ''0''] seed_conn))))
   \<and> map bstock (books (live (snd (snd
        (add_sale no_fault [''2024-02-01'', ''M002'', ''B003'', ''20'', ''0''] seed_conn)))))
      = [50, 30, 0]"
proof -
  have r: "reachable seed_conn
     (snd (snd (add_sale no_fault [''2024-02-01'', ''M002'', ''B003'', ''20'', ''0''] seed_conn)))"
    by (rule reachable.create [OF reachable.start])
  have h1: "stock_nonneg (live seed_conn)" and h2: "stock_nonneg (saved seed_conn)"
    by code_simp+
  have h3: "primary_keys (live seed_conn)" and h4: "primary_keys (saved seed_conn)"
    by code_simp+
  have v: "map bstock (books (live (snd (snd
        (add_sale no_fault [''2024-02-01'', ''M002'', ''B003'', ''20'', ''0''] seed_conn)))))
      = [50, 30, 0]"
    by code_simp
  show ?thesis
    using stock_never_negative [OF r h1 h2 h3 h4] r h1 h2 h3 h4 v by simp
qed

text \<open>
  C4. A create whose quantity is larger than the stock of the book it names fails and
  leaves the connection as it was, whatever else is typed; when the checks before the
  stock check pass, the message is the one that carries the current stock.
\<close>

theorem add_sale_insufficient_stock:
  assumes "select_book b (live c) = Some row" and "py_int qs = Some q" and "bstock row < q"
  shows "\<not> fst (fst (add_sale flt (d # m # b # qs # rest) c))
       \<and> snd (snd (add_sale flt (d # m # b # qs # rest) c)) = c
       \<and> (date_shape d \<and> 0 < q
            \<and> (\<exists>ds rest' dc. rest = ds # rest' \<and> py_int ds = Some dc \<and> 0 \<le> dc)
            \<and> flt SelMember = None \<and> select_member m (live c) \<noteq> None \<and> flt SelBook = None
          \<longrightarrow> fst (add_sale flt (d # m # b # qs # rest) c) = (False, ErrStock (bstock row)))"
  using assms
  by (auto simp add: add_sale_def Let_def split: list.split option.split)

text \<open>A hundred copies of B001, of which fifty are in stock.\<close>

theorem add_sale_insufficient_stock_witness:
  "select_book ''B001'' (live seed_conn) =
       Some \<lparr>bid = ''B001'', btitle = ''Python Programming'', bprice = 600, bstock = 50\<rparr>
   \<and> py_int ''100'' = Some 100 \<and> (50::int) < 100
   \<and> date_shape ''2024-01-01'' \<and> py_int ''0'' = Some 0
   \<and> no_fault SelMember = None \<and> select_member ''M001'' (live seed_conn) \<noteq> None
   \<and> no_fault SelBook = None
   \<and> add_sale no_fault [''2024-01-01'', ''M001'', ''B001'', ''100'', ''0''] seed_conn =
       ((False, ErrStock 50), [], seed_conn)"
proof -
  have h1: "select_book ''B001'' (live seed_conn) =
      Some \<lparr>bid = ''B001'', btitle = ''Python Programming'', bprice = 600, bstock = 50\<rparr>"
    by code_simp
  have h2: "py_int ''100'' = Some 100" by code_simp
  have h3: "bstock \<lparr>bid = ''B001'', btitle = ''Python Programming'', bprice = 600, bstock = 50\<rparr>
      < 100" by simp
  have h4: "py_int ''0'' = Some 0" by code_simp
  have h5: "select_member ''M001'' (live seed_conn) \<noteq> None" by code_simp
  have h6: "add_sale no_fault [''2024-01-01'', ''M001'', ''B001'', ''100'', ''0''] seed_conn =
      (fst (add_sale no_fault [''2024-01-01'', ''M001'', ''B001'', ''100'', ''0''] seed_conn),
       [], snd (snd (add_sale no_fault [''2024-01-01'', ''M001'', ''B001'', ''100'', ''0''] seed_conn)))"
    by code_simp
  show ?thesis
    using add_sale_insufficient_stock [OF h1 h2 h3, of no_fault "''2024-01-01''" "''M001''" "[''0'']"]
      h1 h2 h4 h5 h6
    by (simp add: no_fault_def)
qed

text \<open>
  C5 as the claim orders the checks, member before quantity: an unknown member with
  quantity 0 is answered with the quantity message, not with the unknown-member one.
\<close>

theorem add_sale_member_first_counterexample:
  "date_shape ''2024-01-01''
   \<and> select_member ''M999'' (live seed_conn) = None
   \<and> py_int ''0'' = Some 0
   \<and> fst (add_sale no_fault [''2024-01-01'', ''M999'', ''B001'', ''0'', ''10''] seed_conn)
       = (False, ErrQtyNotPositive)
   \<and> fst (add_sale no_fault [''2024-01-01'', ''M999'', ''B001'', ''0'', ''10''] seed_conn)
       \<noteq> (False, ErrNoMember)"
  by code_simp

text \<open>
  C5, amended. \<open>add_sale\<close> checks in the order: date shape, quantity (an integer, then
  positive), discount (an integer, then not negative), member, book, stock. The first
  check that fails decides the message, the messages differ from each other, and the
  connection is returned unchanged. A check that fails ends the dialogue: the lines not
  yet asked for stay in the input.
\<close>

theorem add_sale_validation_order:
  assumes "flt SelMember = None" and "flt SelBook = None"
  shows
   "(\<not> date_shape d \<longrightarrow>
       add_sale flt (d # m # b # qs # ds # rest) c = ((False, ErrDate), m # b # qs # ds # rest, c))
  \<and> (date_shape d \<and> py_int qs = None \<longrightarrow>
       add_sale flt (d # m # b # qs # ds # rest) c = ((False, ErrQtyNotInt), ds # rest, c))
  \<and> (date_shape d \<and> py_int qs = Some q \<and> q \<le> 0 \<longrightarrow>
       add_sale flt (d # m # b # qs # ds # rest) c = ((False, ErrQtyNotPositive), ds # rest, c))
  \<and> (date_shape d \<and> py_int qs = Some q \<and> 0 < q \<and> py_int ds = None \<longrightarrow>
       add_sale flt (d # m # b # qs # ds # rest) c = ((False, ErrDiscountNotInt), rest, c))
  \<and> (date_shape d \<and> py_int qs = Some q \<and> 0 < q \<and> py_int ds = Some dc \<and> dc < 0 \<longrightarrow>
       add_sale flt (d # m # b # qs # ds # rest) c = ((False, ErrDiscountNegative), rest, c))
  \<and> (date_shape d \<and> py_int qs = Some q \<and> 0 < q \<and> py_int ds = Some dc \<and> 0 \<le> dc
        \<and> select_member m (live c) = None \<longrightarrow>
       add_sale flt (d # m # b # qs # ds # rest) c = ((False, ErrNoMember), rest, c))
  \<and> (date_shape d \<and> py_int qs = Some q \<and> 0 < q \<and> py_int ds = Some dc \<and> 0 \<le> dc
        \<and> select_member m (live c) \<noteq> None \<and> select_book b (live c) = None \<longrightarrow>
       add_sale flt (d # m # b # qs # ds # rest) c = ((False, ErrNoBook), rest, c))
  \<and> (date_shape d \<and> py_int qs = Some q \<and> 0 < q \<and> py_int ds = Some dc \<and> 0 \<le> dc
        \<and> select_member m (live c) \<noteq> None \<and> select_book b (live c) = Some row
        \<and> bstock row < q \<longrightarrow>
       add_sale flt (d # m # b # qs # ds # rest) c = ((False, ErrStock (bstock row)), rest, c))
  \<and> distinct [ErrDate, ErrQtyNotInt, ErrQtyNotPositive, ErrDiscountNotInt, ErrDiscountNegative,
       ErrNoMember, ErrNoBook, ErrStock n]"
  using assms
  by (auto simp add: add_sale_def Let_def)

theorem add_sale_validation_order_witness:
  "no_fault SelMember = None \<and> no_fault SelBook = None
   \<and> date_shape ''2024-01-01'' \<and> py_int ''0'' = Some 0 \<and> (0::int) \<le> 0
   \<and> add_sale no_fault [''2024-01-01'', ''M999'', ''B001'', ''0'', ''10''] seed_conn
       = ((False, ErrQtyNotPositive), [''10''], seed_conn)
   \<and> py_int ''1'' = Some 1 \<and> py_int ''10'' = Some 10 \<and> (0::int) < 1 \<and> (0::int) \<le> 10
   \<and> select_member ''M999'' (live seed_conn) = None
   \<and> add_sale no_fault [''2024-01-01'', ''M999'', ''B001'', ''1'', ''10''] seed_conn
       = ((False, ErrNoMember), [], seed_conn)
   \<and> py_int [CHR 0x1C, CHR ''1''] = None
   \<and> add_sale no_fault [''2024-01-01'', ''M999'', ''B001'', [CHR 0x1C, CHR ''1''], ''10'']
        seed_conn = ((False, ErrQtyNotInt), [''10''], seed_conn)"
proof -
  have h1: "no_fault SelMember = None" and h2: "no_fault SelBook = None"
    by (simp_all add: no_fault_def)
  have h3: "date_shape ''2024-01-01''" by simp
  have h4: "py_int ''0'' = Some 0" by code_simp
  have h5: "py_int ''1'' = Some 1" by code_simp
  have h6: "py_int ''10'' = Some 10" by code_simp
  have h7: "select_member ''M999'' (live seed_conn) = None" by code_simp
  have h8: "py_int [CHR 0x1C, CHR ''1''] = None" by code_simp
  show ?thesis
    using add_sale_validation_order [OF h1 h2, of "''2024-01-01''" "''M999''" "''B001''" "''0''"
        "''10''" "[]" seed_conn 0]
      add_sale_validation_order [OF h1 h2, of "''2024-01-01''" "''M999''" "''B001''"
        "[CHR 0x1C, CHR ''1'']" "''10''" "[]" seed_conn]
      add_sale_validation_order [OF h1 h2, of "''2024-01-01''" "''M999''" "''B001''" "''1''"
        "''10''" "[]" seed_conn 1 10]
      h1 h2 h3 h4 h5 h6 h7 h8
    by simp
qed

section \<open>Choosing a sale, updating and deleting it\<close>

text \<open>
  A line that \<open>strip\<close> empties holds white space only, so \<open>int\<close> finds no digit in it.
\<close>

lemma strip_empty: "strip s = [] \<longleftrightarrow> (\<forall>ch\<in>set s. is_space ch)"
proof
  assume "strip s = []"
  then have a: "\<forall>x\<in>set (dropWhile is_space s). is_space x"
    by (simp add: strip_def dropWhile_eq_Nil_conv)
  have "dropWhile is_space s = []"
  proof (rule ccontr)
    assume n: "dropWhile is_space s \<noteq> []"
    then have "\<not> is_space (hd (dropWhile is_space s))" by (rule hd_dropWhile)
    moreover have "hd (dropWhile is_space s) \<in> set (dropWhile is_space s)"
      using n by simp
    ultimately show False using a by blast
  qed
  then show "\<forall>ch\<in>set s. is_space ch" by (simp add: dropWhile_eq_Nil_conv)
next
  assume a: "\<forall>ch\<in>set s. is_space ch"
  have "\<forall>x\<in>set (dropWhile is_space s). is_space x"
    using a set_dropWhileD by fast
  then show "strip s = []" by (simp add: strip_def dropWhile_eq_Nil_conv)
qed

lemma int_strip_subset: "set (int_strip s) \<subseteq> set s"
proof -
  have "set (dropWhile is_int_space (rev (dropWhile is_int_space s)))
      \<subseteq> set (rev (dropWhile is_int_space s))"
    by (rule set_dropWhileD [THEN subsetI])
  also have "\<dots> \<subseteq> set s"
    using set_dropWhileD [of _ is_int_space s] by auto
  finally show ?thesis by (simp add: int_strip_def)
qed

lemma space_no_digit: "is_space ch \<Longrightarrow> \<not> is_digit ch \<and> ch \<noteq> CHR ''-'' \<and> ch \<noteq> CHR ''+''"
  by (auto simp add: is_space_def is_digit_def)

lemma blank_not_int: "strip s = [] \<Longrightarrow> py_int s = None"
proof (cases "int_strip s")
  case Nil
  then show ?thesis by (simp add: py_int_def)
next
  case (Cons ch cs)
  assume "strip s = []"
  moreover have "ch \<in> set s"
    using int_strip_subset [of s] Cons by auto
  ultimately have "is_space ch" by (simp add: strip_empty)
  then show ?thesis
    using space_no_digit [of ch] Cons by (simp add: py_int_def py_nat_def)
qed

text \<open>
  A separator before the digit is no integer for \<open>int\<close>, though \<open>strip\<close> would drop it;
  nor is a number of more digits than the bound.
\<close>

lemma py_int_separator: "py_int [CHR 0x1C, CHR ''1''] = None \<and> strip [CHR 0x1C, CHR ''1''] = ''1''"
  by code_simp

lemma py_nat_too_long:
  "max_str_digits < int (length (filter is_digit s)) \<Longrightarrow> py_nat s = None"
  by (cases s) (auto simp add: py_nat_def)

lemma list_sales_sids: "fst ` set (list_sales s) \<subseteq> sid ` set (sales s)"
  by (auto simp add: list_sales_def List.map_filter_def)

lemma list_sales_sorted: "sorted (map fst (list_sales s))"
proof -
  have "map fst (list_sales s) =
      map sid (filter (\<lambda>r. select_member (s_mid r) s \<noteq> None) (sort_key sid (sales s)))"
    by (induction "sort_key sid (sales s)")
       (auto simp add: list_sales_def List.map_filter_def comp_def)
  then show ?thesis
    by (simp add: sorted_filter)
qed

lemma select_sale_listed:
  assumes "i < length (list_sales s)"
  shows "\<exists>row. select_sale (fst (list_sales s ! i)) s = Some row"
proof -
  have "fst (list_sales s ! i) \<in> fst ` set (list_sales s)"
    using assms by simp
  then have "fst (list_sales s ! i) \<in> sid ` set (sales s)"
    using list_sales_sids by blast
  then obtain r where "r \<in> set (sales s)" and "sid r = fst (list_sales s ! i)"
    by auto
  then show ?thesis
    unfolding select_sale_def by (intro find_some [of r]) simp_all
qed

text \<open>With unique keys, a statement \<open>WHERE key = ?\<close> touches the one row that has the key.\<close>

lemma filter_key_remove1:
  "distinct (map f xs) \<Longrightarrow> x \<in> set xs \<Longrightarrow> filter (\<lambda>r. f r \<noteq> f x) xs = remove1 x xs"
proof (induction xs)
  case Nil
  then show ?case by simp
next
  case (Cons y ys)
  show ?case
  proof (cases "y = x")
    case True
    have "f x \<notin> f ` set ys"
      using Cons.prems(1) True by simp
    then have "\<forall>r\<in>set ys. f r \<noteq> f x"
      by (metis imageI)
    then have "filter (\<lambda>r. f r \<noteq> f x) ys = ys"
      by (simp add: filter_id_conv)
    with True show ?thesis by simp
  next
    case False
    have "f y \<noteq> f x"
      using Cons.prems False by auto
    with Cons False show ?thesis by simp
  qed
qed

lemma map_key_update:
  assumes "distinct (map f xs)" and "x \<in> set xs"
  shows "map (\<lambda>r. if f r = f x then g r else r) xs = map (\<lambda>r. if r = x then g r else r) xs"
proof (rule map_cong [OF refl])
  fix r assume "r \<in> set xs"
  then have "f r = f x \<longleftrightarrow> r = x"
    using distinct_key_eq [OF assms(1) _ assms(2)] by auto
  then show "(if f r = f x then g r else r) = (if r = x then g r else r)" by simp
qed

lemma select_sale_update_sale_row:
  "select_sale k (update_sale_row dc t k s) =
     map_option (\<lambda>r. r\<lparr>sdiscount := dc, stotal := t\<rparr>) (select_sale k s)"
proof -
  have "find (\<lambda>r. sid r = k)
        (map (\<lambda>r. if sid r = k then r\<lparr>sdiscount := dc, stotal := t\<rparr> else r) xs)
      = map_option (\<lambda>r. r\<lparr>sdiscount := dc, stotal := t\<rparr>) (find (\<lambda>r. sid r = k) xs)" for xs
    by (induction xs) auto
  then show ?thesis by (simp add: select_sale_def update_sale_row_def)
qed

text \<open>The run of \<open>update_sale\<close> in which nothing fails.\<close>

lemma update_sale_valid:
  assumes "flt SelListing = None" and "flt SelSale = None" and "flt SelBook = None"
    and "flt UpdSale = None" and "flt Commit = None"
    and "py_int choice = Some n" and "1 \<le> n" and "n \<le> int (length (list_sales (live c)))"
    and "py_int ds = Some dc" and "0 \<le> dc"
    and "select_sale (fst (list_sales (live c) ! nat (n - 1))) (live c) = Some row"
    and "select_book (s_bid row) (live c) = Some brow"
    and "fits_int64 dc" and "fits_int64 (bprice brow * sqty row - dc)"
  shows "update_sale flt (choice # ds # rest) c =
      (Inr (),
       ListHeader # list_rows (list_sales (live c)) @
         [ListFooter, SaleUpdated (sid row) (bprice brow * sqty row - dc)],
       rest,
       \<lparr>live = update_sale_row dc (bprice brow * sqty row - dc) (sid row) (live c),
        saved = update_sale_row dc (bprice brow * sqty row - dc) (sid row) (live c)\<rparr>)"
proof -
  have k: "sid row = fst (list_sales (live c) ! nat (n - 1))"
    using find_mem [OF assms(11) [unfolded select_sale_def]] by simp
  have ne: "list_sales (live c) \<noteq> []" using assms(7,8) by auto
  have sp: "strip choice \<noteq> []" using assms(6) blank_not_int by fastforce
  show ?thesis
    using assms ne sp
    by (simp add: update_sale_def Let_def commit_def k)
qed

text \<open>The run of \<open>delete_sale\<close> in which nothing fails.\<close>

lemma delete_sale_valid:
  assumes "flt SelListing = None" and "flt DelSale = None" and "flt Commit = None"
    and "py_int choice = Some n" and "1 \<le> n" and "n \<le> int (length (list_sales (live c)))"
  shows "delete_sale flt (choice # rest) c =
      (Inr (),
       list_rows (list_sales (live c)) @
         [ListFooter, SaleDeleted (fst (list_sales (live c) ! nat (n - 1)))],
       rest,
       \<lparr>live = delete_sale_row (fst (list_sales (live c) ! nat (n - 1))) (live c),
        saved = delete_sale_row (fst (list_sales (live c) ! nat (n - 1))) (live c)\<rparr>)"
proof -
  have ne: "list_sales (live c) \<noteq> []" using assms(5,6) by auto
  have sp: "strip choice \<noteq> []" using assms(4) blank_not_int by fastforce
  show ?thesis
    using assms ne sp
    by (simp add: delete_sale_def Let_def commit_def)
qed

text \<open>
  C6 as stated, for every valid update: the second listed sale with the new discount
  2 to the power 63 is a valid choice and a valid discount, yet the total of the sale
  is not recomputed. The discount cannot be bound to the update, and the ledger keeps
  discount 50 and total 750.
\<close>

theorem update_sale_not_recomputed_counterexample:
  "py_int ''2'' = Some 2 \<and> (1::int) \<le> 2 \<and> 2 \<le> int (length (list_sales (live seed_conn)))
   \<and> py_int ''9223372036854775808'' = Some (2 ^ 63) \<and> (0::int) \<le> 2 ^ 63
   \<and> select_sale (fst (list_sales (live seed_conn) ! nat (2 - 1))) (live seed_conn) =
       Some \<lparr>sid = 2, sdate = ''2024-01-16'', s_mid = ''M002'', s_bid = ''B002'',
             sqty = 1, sdiscount = 50, stotal = 750\<rparr>
   \<and> select_book ''B002'' (live seed_conn) =
       Some \<lparr>bid = ''B002'', btitle = ''Data Science Basics'', bprice = 800, bstock = 30\<rparr>
   \<and> fst (update_sale no_fault [''2'', ''9223372036854775808''] seed_conn) = Inl OverflowError
   \<and> select_sale 2
        (live (snd (snd (snd (update_sale no_fault [''2'', ''9223372036854775808''] seed_conn)))))
       = Some \<lparr>sid = 2, sdate = ''2024-01-16'', s_mid = ''M002'', s_bid = ''B002'',
               sqty = 1, sdiscount = 50, stotal = 750\<rparr>
   \<and> (750::int) \<noteq> 800 * 1 - 2 ^ 63"
  by code_simp

text \<open>
  C6, amended. A valid update whose new discount and new total are signed 64-bit values,
  and whose statements do not fail, recomputes the total as the price that the book has
  in the database at that moment times the quantity stored in the sale, minus the new
  discount. The selected row gets the new discount and total and keeps its other
  fields; every other sale, every book and every member is as before, and the change
  is committed.
\<close>

theorem update_sale_recomputes:
  assumes "flt SelListing = None" and "flt SelSale = None" and "flt SelBook = None"
    and "flt UpdSale = None" and "flt Commit = None"
    and "primary_keys (live c)"
    and "py_int choice = Some n" and "1 \<le> n" and "n \<le> int (length (list_sales (live c)))"
    and "py_int ds = Some dc" and "0 \<le> dc"
    and "select_sale (fst (list_sales (live c) ! nat (n - 1))) (live c) = Some row"
    and "select_book (s_bid row) (live c) = Some brow"
    and "fits_int64 dc" and "fits_int64 (bprice brow * sqty row - dc)"
  shows "update_sale flt (choice # ds # rest) c =
      (Inr (),
       ListHeader # list_rows (list_sales (live c)) @
         [ListFooter, SaleUpdated (sid row) (bprice brow * sqty row - dc)],
       rest,
       \<lparr>live = (live c)\<lparr>sales :=
           map (\<lambda>r. if r = row then r\<lparr>sdiscount := dc, stotal := bprice brow * sqty row - dc\<rparr>
                else r)
             (sales (live c))\<rparr>,
        saved = (live c)\<lparr>sales :=
           map (\<lambda>r. if r = row then r\<lparr>sdiscount := dc, stotal := bprice brow * sqty row - dc\<rparr>
                else r)
             (sales (live c))\<rparr>\<rparr>)"
proof -
  have mem: "row \<in> set (sales (live c))"
    using find_mem [OF assms(12) [unfolded select_sale_def]] by simp
  have d: "distinct (map sid (sales (live c)))"
    using assms(6) by (simp add: primary_keys_def)
  show ?thesis
    using update_sale_valid [OF assms(1-5) assms(7-15), of rest]
    by (simp add: update_sale_row_def map_key_update [OF d mem])
qed

text \<open>
  In \<open>repriced_conn\<close> sale 1 (two copies of B001, total 1100 at the old price of 600) gets
  discount 50: its total becomes 700 * 2 - 50.
\<close>

theorem update_sale_recomputes_witness:
  "primary_keys (live repriced_conn)
   \<and> py_int ''1'' = Some 1 \<and> (1::int) \<le> 1 \<and> 1 \<le> int (length (list_sales (live repriced_conn)))
   \<and> py_int ''50'' = Some 50 \<and> (0::int) \<le> 50
   \<and> select_sale (fst (list_sales (live repriced_conn) ! nat (1 - 1))) (live repriced_conn) =
       Some \<lparr>sid = 1, sdate = ''2024-01-15'', s_mid = ''M001'', s_bid = ''B001'',
             sqty = 2, sdiscount = 100, stotal = 1100\<rparr>
   \<and> select_book ''B001'' (live repriced_conn) =
       Some \<lparr>bid = ''B001'', btitle = ''Python Programming'', bprice = 700, bstock = 50\<rparr>
   \<and> fits_int64 50 \<and> fits_int64 (700 * 2 - 50)
   \<and> map stotal (sales (saved (snd (snd (snd
        (update_sale no_fault [''1'', ''50''] repriced_conn)))))) = [1350, 750, 3400, 600]
   \<and> map sdiscount (sales (saved (snd (snd (snd
        (update_sale no_fault [''1'', ''50''] repriced_conn)))))) = [50, 50, 200, 0]
   \<and> map sqty (sales (saved (snd (snd (snd
        (update_sale no_fault [''1'', ''50''] repriced_conn)))))) = [2, 1, 3, 1]
   \<and> books (saved (snd (snd (snd (update_sale no_fault [''1'', ''50''] repriced_conn)))))
       = books (live repriced_conn)"
proof -
  have f: "no_fault SelListing = None" "no_fault SelSale = None" "no_fault SelBook = None"
    "no_fault UpdSale = None" "no_fault Commit = None"
    by (simp_all add: no_fault_def)
  have h6: "primary_keys (live repriced_conn)" by code_simp
  have h7: "py_int ''1'' = Some 1" by code_simp
  have h8: "(1::int) \<le> 1" by simp
  have h9: "1 \<le> int (length (list_sales (live repriced_conn)))" by code_simp
  have h10: "py_int ''50'' = Some 50" by code_simp
  have h11: "(0::int) \<le> 50" by simp
  have h12: "select_sale (fst (list_sales (live repriced_conn) ! nat (1 - 1))) (live repriced_conn) =
       Some \<lparr>sid = 1, sdate = ''2024-01-15'', s_mid = ''M001'', s_bid = ''B001'',
             sqty = 2, sdiscount = 100, stotal = 1100\<rparr>"
    by code_simp
  have h13: "select_book (s_bid \<lparr>sid = 1, sdate = ''2024-01-15'', s_mid = ''M001'',
       s_bid = ''B001'', sqty = 2, sdiscount = 100, stotal = 1100\<rparr>) (live repriced_conn) =
       Some \<lparr>bid = ''B001'', btitle = ''Python Programming'', bprice = 700, bstock = 50\<rparr>"
    by code_simp
  have h14: "fits_int64 50" by (simp add: fits_int64_def)
  have h15: "fits_int64 (bprice \<lparr>bid = ''B001'', btitle = ''Python Programming'',
       bprice = 700, bstock = 50\<rparr> *
       sqty \<lparr>sid = 1, sdate = ''2024-01-15'', s_mid = ''M001'', s_bid = ''B001'',
             sqty = 2, sdiscount = 100, stotal = 1100\<rparr> - 50)"
    by (simp add: fits_int64_def)
  have s: "sales (live repriced_conn) = sales seed_db"
    by (simp add: repriced_conn_def)
  show ?thesis
    using update_sale_recomputes [where flt = no_fault and rest = "[]",
        OF f h6 h7 h8 h9 h10 h11 h12 h13 h14 h15]
      h6 h7 h9 h10 h12 h13 h14
    by (simp add: s seed_db_def fits_int64_def)
qed

text \<open>
  C7. A delete with a valid choice removes the one row of the ledger that the choice
  selects. The other sales, the members and the books, the stock of the book of the
  deleted sale among them, are as before, and the change is committed.
\<close>

theorem delete_sale_removes_one_row:
  assumes "flt SelListing = None" and "flt DelSale = None" and "flt Commit = None"
    and "primary_keys (live c)"
    and "py_int choice = Some n" and "1 \<le> n" and "n \<le> int (length (list_sales (live c)))"
  shows "\<exists>row. select_sale (fst (list_sales (live c) ! nat (n - 1))) (live c) = Some row
      \<and> row \<in> set (sales (live c))
      \<and> delete_sale flt (choice # rest) c =
         (Inr (),
          list_rows (list_sales (live c)) @ [ListFooter, SaleDeleted (sid row)],
          rest,
          \<lparr>live = (live c)\<lparr>sales := remove1 row (sales (live c))\<rparr>,
           saved = (live c)\<lparr>sales := remove1 row (sales (live c))\<rparr>\<rparr>)
      \<and> length (remove1 row (sales (live c))) = length (sales (live c)) - 1
      \<and> books ((live c)\<lparr>sales := remove1 row (sales (live c))\<rparr>) = books (live c)
      \<and> members ((live c)\<lparr>sales := remove1 row (sales (live c))\<rparr>) = members (live c)"
proof -
  have "nat (n - 1) < length (list_sales (live c))"
    using assms(6,7) by simp
  then obtain row
    where row: "select_sale (fst (list_sales (live c) ! nat (n - 1))) (live c) = Some row"
    using select_sale_listed by blast
  have mem: "row \<in> set (sales (live c))"
    and k: "sid row = fst (list_sales (live c) ! nat (n - 1))"
    using find_mem [OF row [unfolded select_sale_def]] by simp_all
  have d: "distinct (map sid (sales (live c)))"
    using assms(4) by (simp add: primary_keys_def)
  have "delete_sale_row (sid row) (live c) = (live c)\<lparr>sales := remove1 row (sales (live c))\<rparr>"
    by (simp add: delete_sale_row_def filter_key_remove1 [OF d mem])
  then show ?thesis
    using delete_sale_valid [OF assms(1-3) assms(5-7), of rest] row mem k
    by (simp add: length_remove1)
qed

text \<open>Deleting the second listed sale: one copy of B002, whose stock stays at 30.\<close>

theorem delete_sale_removes_one_row_witness:
  "no_fault SelListing = None \<and> no_fault DelSale = None \<and> no_fault Commit = None
   \<and> primary_keys (live seed_conn)
   \<and> py_int ''2'' = Some 2 \<and> (1::int) \<le> 2 \<and> 2 \<le> int (length (list_sales (live seed_conn)))
   \<and> map sid (sales (saved (snd (snd (snd (delete_sale no_fault [''2''] seed_conn))))))
       = [1, 3, 4]
   \<and> books (saved (snd (snd (snd (delete_sale no_fault [''2''] seed_conn)))))
       = books (live seed_conn)
   \<and> members (saved (snd (snd (snd (delete_sale no_fault [''2''] seed_conn)))))
       = members (live seed_conn)"
proof -
  have h1: "no_fault SelListing = None" and h2: "no_fault DelSale = None"
    and h3: "no_fault Commit = None"
    by (simp_all add: no_fault_def)
  have h4: "primary_keys (live seed_conn)" by code_simp
  have h5: "py_int ''2'' = Some 2" by code_simp
  have h6: "(1::int) \<le> 2" by simp
  have h7: "2 \<le> int (length (list_sales (live seed_conn)))" by code_simp
  have v: "map sid (sales (saved (snd (snd (snd (delete_sale no_fault [''2''] seed_conn))))))
       = [1, 3, 4]"
    by code_simp
  show ?thesis
    using delete_sale_removes_one_row [OF h1 h2 h3 h4 h5 h6 h7, of "[]"] h1 h2 h3 h4 h5 h7 v
    by auto
qed

text \<open>
  C8. The choice of a sale in \<open>update_sale\<close> and \<open>delete_sale\<close>, when the listing query
  does not fail. An empty listing is reported and no line is read. A blank line ends the
  operation with the listing as only output and the connection unchanged. An integer
  from 1 to the length of the listing selects the entry at that position, and the
  listing is ordered by ascending \<open>sid\<close>. Every other line is answered with an error
  message and the connection unchanged.
\<close>

theorem selection_rules:
  assumes "flt SelListing = None"
  shows
   "(list_sales (live c) = [] \<longrightarrow>
       update_sale flt inp c = (Inr (), [NoSalesToUpdate], inp, c)
     \<and> delete_sale flt inp c = (Inr (), [NoSalesToDelete], inp, c))
  \<and> (list_sales (live c) \<noteq> [] \<and> strip choice = [] \<longrightarrow>
       update_sale flt (choice # rest) c =
         (Inr (), ListHeader # list_rows (list_sales (live c)) @ [ListFooter], rest, c)
     \<and> delete_sale flt (choice # rest) c =
         (Inr (), list_rows (list_sales (live c)) @ [ListFooter], rest, c))
  \<and> (py_int choice = Some n \<and> 1 \<le> n \<and> n \<le> int (length (list_sales (live c)))
        \<and> flt DelSale = None \<and> flt Commit = None \<longrightarrow>
       delete_sale flt (choice # rest) c =
         (Inr (),
          list_rows (list_sales (live c)) @
            [ListFooter, SaleDeleted (fst (list_sales (live c) ! nat (n - 1)))],
          rest,
          \<lparr>live = delete_sale_row (fst (list_sales (live c) ! nat (n - 1))) (live c),
           saved = delete_sale_row (fst (list_sales (live c) ! nat (n - 1))) (live c)\<rparr>))
  \<and> (py_int choice = Some n \<and> 1 \<le> n \<and> n \<le> int (length (list_sales (live c)))
        \<and> flt SelSale = None \<and> flt SelBook = None \<and> flt UpdSale = None \<and> flt Commit = None
        \<and> py_int ds = Some dc \<and> 0 \<le> dc
        \<and> select_sale (fst (list_sales (live c) ! nat (n - 1))) (live c) = Some row
        \<and> select_book (s_bid row) (live c) = Some brow
        \<and> fits_int64 dc \<and> fits_int64 (bprice brow * sqty row - dc) \<longrightarrow>
       update_sale flt (choice # ds # rest) c =
         (Inr (),
          ListHeader # list_rows (list_sales (live c)) @
            [ListFooter,
             SaleUpdated (fst (list_sales (live c) ! nat (n - 1))) (bprice brow * sqty row - dc)],
          rest,
          \<lparr>live = update_sale_row dc (bprice brow * sqty row - dc)
                    (fst (list_sales (live c) ! nat (n - 1))) (live c),
           saved = update_sale_row dc (bprice brow * sqty row - dc)
                    (fst (list_sales (live c) ! nat (n - 1))) (live c)\<rparr>))
  \<and> (list_sales (live c) \<noteq> [] \<and> strip choice \<noteq> [] \<and> py_int choice = None \<longrightarrow>
       update_sale flt (choice # rest) c =
         (Inr (), ListHeader # list_rows (list_sales (live c)) @ [ListFooter, ErrBadNumber], rest, c)
     \<and> delete_sale flt (choice # rest) c =
         (Inr (), list_rows (list_sales (live c)) @ [ListFooter, ErrBadNumber], rest, c))
  \<and> (list_sales (live c) \<noteq> [] \<and> py_int choice = Some n
        \<and> (n < 1 \<or> int (length (list_sales (live c))) < n) \<longrightarrow>
       update_sale flt (choice # rest) c =
         (Inr (), ListHeader # list_rows (list_sales (live c)) @ [ListFooter, ErrBadOption], rest, c)
     \<and> delete_sale flt (choice # rest) c =
         (Inr (), list_rows (list_sales (live c)) @ [ListFooter, ErrBadNumber], rest, c))
  \<and> sorted (map fst (list_sales (live c)))"
proof -
  have a: "list_sales (live c) = [] \<longrightarrow>
       update_sale flt inp c = (Inr (), [NoSalesToUpdate], inp, c)
     \<and> delete_sale flt inp c = (Inr (), [NoSalesToDelete], inp, c)"
    using assms by (simp add: update_sale_def delete_sale_def)
  have b: "list_sales (live c) \<noteq> [] \<and> strip choice = [] \<longrightarrow>
       update_sale flt (choice # rest) c =
         (Inr (), ListHeader # list_rows (list_sales (live c)) @ [ListFooter], rest, c)
     \<and> delete_sale flt (choice # rest) c =
         (Inr (), list_rows (list_sales (live c)) @ [ListFooter], rest, c)"
    using assms by (simp add: update_sale_def delete_sale_def)
  have d: "py_int choice = Some n \<and> 1 \<le> n \<and> n \<le> int (length (list_sales (live c)))
        \<and> flt DelSale = None \<and> flt Commit = None \<longrightarrow>
       delete_sale flt (choice # rest) c =
         (Inr (),
          list_rows (list_sales (live c)) @
            [ListFooter, SaleDeleted (fst (list_sales (live c) ! nat (n - 1)))],
          rest,
          \<lparr>live = delete_sale_row (fst (list_sales (live c) ! nat (n - 1))) (live c),
           saved = delete_sale_row (fst (list_sales (live c) ! nat (n - 1))) (live c)\<rparr>)"
    using assms delete_sale_valid [of flt choice n c rest] by blast
  have u: "py_int choice = Some n \<and> 1 \<le> n \<and> n \<le> int (length (list_sales (live c)))
        \<and> flt SelSale = None \<and> flt SelBook = None \<and> flt UpdSale = None \<and> flt Commit = None
        \<and> py_int ds = Some dc \<and> 0 \<le> dc
        \<and> select_sale (fst (list_sales (live c) ! nat (n - 1))) (live c) = Some row
        \<and> select_book (s_bid row) (live c) = Some brow
        \<and> fits_int64 dc \<and> fits_int64 (bprice brow * sqty row - dc) \<longrightarrow>
       update_sale flt (choice # ds # rest) c =
         (Inr (),
          ListHeader # list_rows (list_sales (live c)) @
            [ListFooter,
             SaleUpdated (fst (list_sales (live c) ! nat (n - 1))) (bprice brow * sqty row - dc)],
          rest,
          \<lparr>live = update_sale_row dc (bprice brow * sqty row - dc)
                    (fst (list_sales (live c) ! nat (n - 1))) (live c),
           saved = update_sale_row dc (bprice brow * sqty row - dc)
                    (fst (list_sales (live c) ! nat (n - 1))) (live c)\<rparr>)"
  proof
    assume h: "py_int choice = Some n \<and> 1 \<le> n \<and> n \<le> int (length (list_sales (live c)))
        \<and> flt SelSale = None \<and> flt SelBook = None \<and> flt UpdSale = None \<and> flt Commit = None
        \<and> py_int ds = Some dc \<and> 0 \<le> dc
        \<and> select_sale (fst (list_sales (live c) ! nat (n - 1))) (live c) = Some row
        \<and> select_book (s_bid row) (live c) = Some brow
        \<and> fits_int64 dc \<and> fits_int64 (bprice brow * sqty row - dc)"
    then have k: "sid row = fst (list_sales (live c) ! nat (n - 1))"
      using find_mem [of "\<lambda>r. sid r = fst (list_sales (live c) ! nat (n - 1))" "sales (live c)" row]
      by (simp add: select_sale_def)
    show "update_sale flt (choice # ds # rest) c =
         (Inr (),
          ListHeader # list_rows (list_sales (live c)) @
            [ListFooter,
             SaleUpdated (fst (list_sales (live c) ! nat (n - 1))) (bprice brow * sqty row - dc)],
          rest,
          \<lparr>live = update_sale_row dc (bprice brow * sqty row - dc)
                    (fst (list_sales (live c) ! nat (n - 1))) (live c),
           saved = update_sale_row dc (bprice brow * sqty row - dc)
                    (fst (list_sales (live c) ! nat (n - 1))) (live c)\<rparr>)"
      using h assms update_sale_valid [of flt choice n c ds dc row brow rest] k by simp
  qed
  have e: "list_sales (live c) \<noteq> [] \<and> strip choice \<noteq> [] \<and> py_int choice = None \<longrightarrow>
       update_sale flt (choice # rest) c =
         (Inr (), ListHeader # list_rows (list_sales (live c)) @ [ListFooter, ErrBadNumber], rest, c)
     \<and> delete_sale flt (choice # rest) c =
         (Inr (), list_rows (list_sales (live c)) @ [ListFooter, ErrBadNumber], rest, c)"
    using assms by (simp add: update_sale_def delete_sale_def)
  have f: "list_sales (live c) \<noteq> [] \<and> py_int choice = Some n
        \<and> (n < 1 \<or> int (length (list_sales (live c))) < n) \<longrightarrow>
       update_sale flt (choice # rest) c =
         (Inr (), ListHeader # list_rows (list_sales (live c)) @ [ListFooter, ErrBadOption], rest, c)
     \<and> delete_sale flt (choice # rest) c =
         (Inr (), list_rows (list_sales (live c)) @ [ListFooter, ErrBadNumber], rest, c)"
  proof
    assume h: "list_sales (live c) \<noteq> [] \<and> py_int choice = Some n
        \<and> (n < 1 \<or> int (length (list_sales (live c))) < n)"
    then have sp: "strip choice \<noteq> []" using blank_not_int by fastforce
    show "update_sale flt (choice # rest) c =
         (Inr (), ListHeader # list_rows (list_sales (live c)) @ [ListFooter, ErrBadOption], rest, c)
     \<and> delete_sale flt (choice # rest) c =
         (Inr (), list_rows (list_sales (live c)) @ [ListFooter, ErrBadNumber], rest, c)"
      using h sp assms by (auto simp add: update_sale_def delete_sale_def Let_def)
  qed
  show ?thesis
    using a b d u e f list_sales_sorted [of "live c"] by blast
qed

text \<open>
  On the seeded database: a blank line, the third entry, a word, a number beyond the
  four entries and a digit behind a separator that \<open>int\<close> does not skip; on an empty
  ledger nothing is read.
\<close>

theorem selection_rules_witness:
  "no_fault SelListing = None
   \<and> list_sales (live no_sales_conn) = []
   \<and> update_sale no_fault [''1''] no_sales_conn = (Inr (), [NoSalesToUpdate], [''1''], no_sales_conn)
   \<and> list_sales (live seed_conn) \<noteq> [] \<and> strip ''  '' = []
   \<and> fst (snd (update_sale no_fault [''  ''] seed_conn)) =
       [ListHeader, ListRow 1 1 ''Alice'' ''2024-01-15'', ListRow 2 2 ''Bob'' ''2024-01-16'',
        ListRow 3 3 ''Alice'' ''2024-01-17'', ListRow 4 4 ''Cathy'' ''2024-01-18'', ListFooter]
   \<and> snd (snd (snd (update_sale no_fault [''  ''] seed_conn))) = seed_conn
   \<and> py_int ''3'' = Some 3 \<and> (1::int) \<le> 3 \<and> 3 \<le> int (length (list_sales (live seed_conn)))
   \<and> no_fault DelSale = None \<and> no_fault Commit = None
   \<and> last (fst (snd (delete_sale no_fault [''3''] seed_conn))) = SaleDeleted 3
   \<and> strip ''abc'' \<noteq> [] \<and> py_int ''abc'' = None
   \<and> last (fst (snd (delete_sale no_fault [''abc''] seed_conn))) = ErrBadNumber
   \<and> snd (snd (snd (delete_sale no_fault [''abc''] seed_conn))) = seed_conn
   \<and> py_int ''5'' = Some 5 \<and> int (length (list_sales (live seed_conn))) < 5
   \<and> last (fst (snd (update_sale no_fault [''5''] seed_conn))) = ErrBadOption
   \<and> snd (snd (snd (update_sale no_fault [''5''] seed_conn))) = seed_conn
   \<and> strip [CHR 0x1C, CHR ''1''] \<noteq> [] \<and> py_int [CHR 0x1C, CHR ''1''] = None
   \<and> last (fst (snd (delete_sale no_fault [[CHR 0x1C, CHR ''1'']] seed_conn))) = ErrBadNumber
   \<and> snd (snd (snd (delete_sale no_fault [[CHR 0x1C, CHR ''1'']] seed_conn))) = seed_conn
   \<and> last (fst (snd (update_sale no_fault [[CHR 0x1C, CHR ''1'']] seed_conn))) = ErrBadNumber
   \<and> snd (snd (snd (update_sale no_fault [[CHR 0x1C, CHR ''1'']] seed_conn))) = seed_conn"
proof -
  have h: "no_fault SelListing = None" and hd: "no_fault DelSale = None"
    and hc: "no_fault Commit = None"
    by (simp_all add: no_fault_def)
  have e: "list_sales (live no_sales_conn) = []" by code_simp
  have ne: "list_sales (live seed_conn) \<noteq> []" by code_simp
  have len: "int (length (list_sales (live seed_conn))) = 4" by code_simp
  have k3: "fst (list_sales (live seed_conn) ! nat (3 - 1)) = 3" by code_simp
  have rows: "list_rows (list_sales (live seed_conn)) =
       [ListRow 1 1 ''Alice'' ''2024-01-15'', ListRow 2 2 ''Bob'' ''2024-01-16'',
        ListRow 3 3 ''Alice'' ''2024-01-17'', ListRow 4 4 ''Cathy'' ''2024-01-18'']"
    by code_simp
  have b: "strip ''  '' = []" by code_simp
  have p3: "py_int ''3'' = Some 3" by code_simp
  have p5: "py_int ''5'' = Some 5" by code_simp
  have sa: "strip ''abc'' \<noteq> []" by code_simp
  have pa: "py_int ''abc'' = None" by code_simp
  have ss: "strip [CHR 0x1C, CHR ''1''] \<noteq> []" by code_simp
  have ps: "py_int [CHR 0x1C, CHR ''1''] = None" by code_simp
  show ?thesis
    using selection_rules [where flt = no_fault and c = no_sales_conn and inp = "[''1'']", OF h]
      selection_rules [where flt = no_fault and c = seed_conn and choice = "''  ''" and rest = "[]", OF h]
      selection_rules [where flt = no_fault and c = seed_conn and choice = "''3''" and rest = "[]" and n = 3, OF h]
      selection_rules [where flt = no_fault and c = seed_conn and choice = "''abc''" and rest = "[]", OF h]
      selection_rules [where flt = no_fault and c = seed_conn and choice = "''5''" and rest = "[]" and n = 5, OF h]
      selection_rules [where flt = no_fault and c = seed_conn
          and choice = "[CHR 0x1C, CHR ''1'']" and rest = "[]", OF h]
      h hd hc e ne len k3 rows b p3 p5 sa pa ss ps
    by simp
qed

section \<open>Errors that leave the menu loop\<close>

text \<open>
  C9. \<open>update_sale\<close> has no handler around its body, and the menu loop catches
  \<open>ValueError\<close>, \<open>sqlite3.OperationalError\<close> and \<open>sqlite3.DatabaseError\<close> only. Choosing
  update, the first sale and the discount 9223372036854775808 (2 to the power 63) makes
  the binding of the discount raise \<open>OverflowError\<close>: the loop is left by that exception,
  not by the exit choice. The same happens when the input ends at the prompt of
  \<open>delete_sale\<close>.
\<close>

theorem main_loop_uncaught_error:
  "main_loop [] [''3'', ''1'', ''9223372036854775808''] seed_conn =
     (Crashed OverflowError,
      [ListHeader, ListRow 1 1 ''Alice'' ''2024-01-15'', ListRow 2 2 ''Bob'' ''2024-01-16'',
       ListRow 3 3 ''Alice'' ''2024-01-17'', ListRow 4 4 ''Cathy'' ''2024-01-18'', ListFooter],
      seed_conn)
   \<and> fst (main_loop [] [''4''] seed_conn) = Crashed EOFError
   \<and> fst (add_sale no_fault [''2024-01-01'', ''M001'', ''B001'', ''1'', ''9223372036854775808'']
        seed_conn) = (False, SystemError OverflowError)"
  by code_simp

text \<open>On that input the loop does not end by the exit choice.\<close>

theorem main_loop_uncaught_error_witness:
  "fst (main_loop [] [''3'', ''1'', ''9223372036854775808''] seed_conn) \<noteq> Exited"
  using main_loop_uncaught_error by simp

text \<open>
  C10 as stated, for any valid discount: the discount 2 to the power 63 parses, is not
  negative and exceeds 600 * 2, yet \<open>update_sale\<close> ends with \<open>OverflowError\<close> and the
  totals are the ones from before.
\<close>

theorem update_sale_overflow_counterexample:
  "py_int ''1'' = Some 1 \<and> py_int ''9223372036854775808'' = Some (2 ^ 63)
   \<and> select_sale 1 (live seed_conn) =
       Some \<lparr>sid = 1, sdate = ''2024-01-15'', s_mid = ''M001'', s_bid = ''B001'',
             sqty = 2, sdiscount = 100, stotal = 1100\<rparr>
   \<and> select_book ''B001'' (live seed_conn) =
       Some \<lparr>bid = ''B001'', btitle = ''Python Programming'', bprice = 600, bstock = 50\<rparr>
   \<and> (600::int) * 2 < 2 ^ 63
   \<and> fst (update_sale no_fault [''1'', ''9223372036854775808''] seed_conn) = Inl OverflowError
   \<and> snd (snd (snd (update_sale no_fault [''1'', ''9223372036854775808''] seed_conn))) = seed_conn
   \<and> map stotal (sales (saved seed_conn)) = [1100, 750, 3400, 600]"
  by code_simp

text \<open>
  C10, amended. When the new discount and the new total are signed 64-bit values and no
  statement fails, a discount larger than the current price times the stored quantity
  is accepted: the selected sale is committed with the new discount and a negative total.
\<close>

theorem update_sale_negative_total:
  assumes "flt SelListing = None" and "flt SelSale = None" and "flt SelBook = None"
    and "flt UpdSale = None" and "flt Commit = None"
    and "py_int choice = Some n" and "1 \<le> n" and "n \<le> int (length (list_sales (live c)))"
    and "py_int ds = Some dc" and "0 \<le> dc"
    and "select_sale (fst (list_sales (live c) ! nat (n - 1))) (live c) = Some row"
    and "select_book (s_bid row) (live c) = Some brow"
    and "fits_int64 dc" and "fits_int64 (bprice brow * sqty row - dc)"
    and "bprice brow * sqty row < dc"
  shows "fst (update_sale flt (choice # ds # rest) c) = Inr ()
       \<and> select_sale (sid row) (saved (snd (snd (snd (update_sale flt (choice # ds # rest) c))))) =
           Some (row\<lparr>sdiscount := dc, stotal := bprice brow * sqty row - dc\<rparr>)
       \<and> live (snd (snd (snd (update_sale flt (choice # ds # rest) c)))) =
           saved (snd (snd (snd (update_sale flt (choice # ds # rest) c))))
       \<and> bprice brow * sqty row - dc < 0"
proof -
  have k: "sid row = fst (list_sales (live c) ! nat (n - 1))"
    using find_mem [OF assms(11) [unfolded select_sale_def]] by simp
  show ?thesis
    using update_sale_valid [OF assms(1-14), of rest] assms(11,15)
    by (simp add: select_sale_update_sale_row k)
qed

text \<open>Sale 4, one copy of B001 at 600, with the new discount 1000: total -400.\<close>

theorem update_sale_negative_total_witness:
  "py_int ''4'' = Some 4 \<and> (1::int) \<le> 4 \<and> 4 \<le> int (length (list_sales (live seed_conn)))
   \<and> py_int ''1000'' = Some 1000 \<and> (0::int) \<le> 1000
   \<and> select_sale (fst (list_sales (live seed_conn) ! nat (4 - 1))) (live seed_conn) =
       Some \<lparr>sid = 4, sdate = ''2024-01-18'', s_mid = ''M003'', s_bid = ''B001'',
             sqty = 1, sdiscount = 0, stotal = 600\<rparr>
   \<and> select_book ''B001'' (live seed_conn) =
       Some \<lparr>bid = ''B001'', btitle = ''Python Programming'', bprice = 600, bstock = 50\<rparr>
   \<and> fits_int64 1000 \<and> fits_int64 (600 * 1 - 1000) \<and> (600::int) * 1 < 1000
   \<and> select_sale 4 (saved (snd (snd (snd (update_sale no_fault [''4'', ''1000''] seed_conn))))) =
       Some \<lparr>sid = 4, sdate = ''2024-01-18'', s_mid = ''M003'', s_bid = ''B001'',
             sqty = 1, sdiscount = 1000, stotal = - 400\<rparr>"
proof -
  have f: "no_fault SelListing = None" "no_fault SelSale = None" "no_fault SelBook = None"
    "no_fault UpdSale = None" "no_fault Commit = None"
    by (simp_all add: no_fault_def)
  have h6: "py_int ''4'' = Some 4" by code_simp
  have h7: "(1::int) \<le> 4" by simp
  have h8: "4 \<le> int (length (list_sales (live seed_conn)))" by code_simp
  have h9: "py_int ''1000'' = Some 1000" by code_simp
  have h10: "(0::int) \<le> 1000" by simp
  have h11: "select_sale (fst (list_sales (live seed_conn) ! nat (4 - 1))) (live seed_conn) =
       Some \<lparr>sid = 4, sdate = ''2024-01-18'', s_mid = ''M003'', s_bid = ''B001'',
             sqty = 1, sdiscount = 0, stotal = 600\<rparr>"
    by code_simp
  have h12: "select_book (s_bid \<lparr>sid = 4, sdate = ''2024-01-18'', s_mid = ''M003'',
       s_bid = ''B001'', sqty = 1, sdiscount = 0, stotal = 600\<rparr>) (live seed_conn) =
       Some \<lparr>bid = ''B001'', btitle = ''Python Programming'', bprice = 600, bstock = 50\<rparr>"
    by code_simp
  have h13: "fits_int64 1000" by (simp add: fits_int64_def)
  have h14: "fits_int64 (bprice \<lparr>bid = ''B001'', btitle = ''Python Programming'',
       bprice = 600, bstock = 50\<rparr> *
       sqty \<lparr>sid = 4, sdate = ''2024-01-18'', s_mid = ''M003'', s_bid = ''B001'',
             sqty = 1, sdiscount = 0, stotal = 600\<rparr> - 1000)"
    by (simp add: fits_int64_def)
  have h15: "bprice \<lparr>bid = ''B001'', btitle = ''Python Programming'',
       bprice = 600, bstock = 50\<rparr> *
       sqty \<lparr>sid = 4, sdate = ''2024-01-18'', s_mid = ''M003'', s_bid = ''B001'',
             sqty = 1, sdiscount = 0, stotal = 600\<rparr> < 1000"
    by simp
  show ?thesis
    using update_sale_negative_total [where flt = no_fault and rest = "[]",
        OF f h6 h7 h8 h9 h10 h11 h12 h13 h14 h15]
      h6 h8 h9 h11 h12 h13
    by (simp add: fits_int64_def)
qed

end
